theory Spec2Isabelle
  imports Main "HOL-Library.Sublist" "HOL-Library.Word"
begin

section \<open>JavaScript values as the two scripts observe them\<close>

text \<open>
  Both scripts work on values produced by \<^verbatim>\<open>JSON.parse\<close> and on strings given on the
  command line. A value is one of the JSON shapes, or \<^verbatim>\<open>undefined\<close> (the result of
  reading a property that is not there).

  \<^item> A string is a list of characters, one per code unit.
  \<^item> A number is held as its canonical text, the result of \<^verbatim>\<open>String(n)\<close>: the scripts
    never compute with a number read from a file, they test it for truthiness, compare it
    with \<^verbatim>\<open>===\<close> and use it as a property key, and all three are functions of that
    text (\<^verbatim>\<open>-0\<close> prints as \<^verbatim>\<open>0\<close> and is \<^verbatim>\<open>=== 0\<close>).
  \<^item> An object is the list of its own enumerable properties in the order in which
    \<^verbatim>\<open>Object.entries\<close> and \<^verbatim>\<open>for..in\<close> enumerate them (integer-like keys in
    ascending order, then the other keys in insertion order); its keys are distinct.
\<close>

datatype jsval =
    JUndefined
  | JNull
  | JBool bool
  | JNum string
  | JStr string
  | JArr "jsval list"
  | JObj "(string \<times> jsval) list"

text \<open>What the scripts can throw: a TypeError of the language, a failed call of
  \<^verbatim>\<open>fs\<close>, and the constructor's \<^verbatim>\<open>Error('No .tig directory found')\<close>.\<close>

datatype error = TypeError | IOError | NoTigDirectory

text \<open>Truthiness: what \<^verbatim>\<open>!x\<close>, \<^verbatim>\<open>x || y\<close>, \<^verbatim>\<open>x && y\<close> and \<^verbatim>\<open>x ? a : b\<close> test.\<close>

fun truthy :: "jsval \<Rightarrow> bool" where
  "truthy JUndefined = False"
| "truthy JNull = False"
| "truthy (JBool b) = b"
| "truthy (JNum n) = (n \<noteq> ''0'' \<and> n \<noteq> ''NaN'')"
| "truthy (JStr s) = (s \<noteq> [])"
| "truthy (JArr xs) = True"
| "truthy (JObj ps) = True"

definition js_or :: "jsval \<Rightarrow> jsval \<Rightarrow> jsval" where
  "js_or a b = (if truthy a then a else b)"

definition js_and :: "jsval \<Rightarrow> jsval \<Rightarrow> jsval" where
  "js_and a b = (if truthy a then b else a)"

text \<open>Reading a property of \<^verbatim>\<open>null\<close> or \<^verbatim>\<open>undefined\<close> throws a TypeError.\<close>

fun nullish :: "jsval \<Rightarrow> bool" where
  "nullish JUndefined = True"
| "nullish JNull = True"
| "nullish v = False"

text \<open>Decimal text of a natural number (array indices, \<^verbatim>\<open>length\<close>, counts in messages).\<close>

definition digit_char :: "nat \<Rightarrow> char" where
  "digit_char d = ''0123456789'' ! d"

fun show_nat :: "nat \<Rightarrow> string" where
  "show_nat n = (if n < 10 then [digit_char n] else show_nat (n div 10) @ [digit_char (n mod 10)])"

declare show_nat.simps [simp del]

text \<open>
  \<open>js_get v k\<close> is the value of \<^verbatim>\<open>v[k]\<close> (or \<^verbatim>\<open>v.k\<close>) for a receiver \<open>v\<close> other than
  \<^verbatim>\<open>null\<close> and \<^verbatim>\<open>undefined\<close>; every read below whose receiver can be one of these two
  is preceded by the test \<open>nullish\<close> and throws there. Own properties only: a key that
  names an inherited member (\<^verbatim>\<open>toString\<close>, \<^verbatim>\<open>constructor\<close>, \<^verbatim>\<open>concat\<close>, ...) yields a
  built-in function or prototype object in JavaScript and \<^verbatim>\<open>undefined\<close> here. The only
  read with a computed key is the conversation lookup of \<open>getBlameInfo\<close>, whose result
  goes through \<^verbatim>\<open>|| {}\<close> and is then asked for \<^verbatim>\<open>prompt\<close>, \<^verbatim>\<open>responses\<close> and
  \<^verbatim>\<open>start_time\<close>: a built-in member is truthy, is not an array and has none of the
  three, exactly as the \<^verbatim>\<open>{}\<close> that replaces \<^verbatim>\<open>undefined\<close>.
\<close>

fun js_get :: "jsval \<Rightarrow> string \<Rightarrow> jsval" where
  "js_get (JObj ps) k = (case map_of ps k of Some v \<Rightarrow> v | None \<Rightarrow> JUndefined)"
| "js_get (JArr xs) k =
     (if k = ''length'' then JNum (show_nat (length xs))
      else case filter (\<lambda>i. show_nat i = k) [0..<length xs] of
             i # _ \<Rightarrow> xs ! i
           | [] \<Rightarrow> JUndefined)"
| "js_get (JStr s) k =
     (if k = ''length'' then JNum (show_nat (length s))
      else case filter (\<lambda>i. show_nat i = k) [0..<length s] of
             i # _ \<Rightarrow> JStr [s ! i]
           | [] \<Rightarrow> JUndefined)"
| "js_get v k = JUndefined"

text \<open>\<^verbatim>\<open>Object.entries(v)\<close> for a receiver other than \<^verbatim>\<open>null\<close> and \<^verbatim>\<open>undefined\<close>.\<close>

fun object_entries :: "jsval \<Rightarrow> (string \<times> jsval) list" where
  "object_entries (JObj ps) = ps"
| "object_entries (JArr xs) = zip (map show_nat [0..<length xs]) xs"
| "object_entries (JStr s) = zip (map show_nat [0..<length s]) (map (\<lambda>c. JStr [c]) s)"
| "object_entries v = []"

text \<open>\<^verbatim>\<open>xs.join(sep)\<close> on an array of strings.\<close>

fun join_with :: "string \<Rightarrow> string list \<Rightarrow> string" where
  "join_with sep [] = []"
| "join_with sep [x] = x"
| "join_with sep (x # y # ys) = x @ sep @ join_with sep (y # ys)"

text \<open>
  \<^verbatim>\<open>String(v)\<close>, which is how a value becomes a property key in \<^verbatim>\<open>obj[v]\<close>. An array
  joins its elements with commas, \<^verbatim>\<open>null\<close> and \<^verbatim>\<open>undefined\<close> elements giving the
  empty string.
\<close>

fun js_to_string :: "jsval \<Rightarrow> string" where
  "js_to_string JUndefined = ''undefined''"
| "js_to_string JNull = ''null''"
| "js_to_string (JBool b) = (if b then ''true'' else ''false'')"
| "js_to_string (JNum n) = n"
| "js_to_string (JStr s) = s"
| "js_to_string (JArr xs) =
     join_with '','' (map (\<lambda>x. if nullish x then [] else js_to_string x) xs)"
| "js_to_string (JObj ps) = ''[object Object]''"

text \<open>
  \<^verbatim>\<open>a === b\<close> for two values that do not share an object: primitives compare by value,
  and an array or object parsed from one file is never identical to anything parsed from
  another file or typed on the command line.
\<close>

fun strict_eq :: "jsval \<Rightarrow> jsval \<Rightarrow> bool" where
  "strict_eq JUndefined JUndefined = True"
| "strict_eq JNull JNull = True"
| "strict_eq (JBool a) (JBool b) = (a = b)"
| "strict_eq (JNum a) (JNum b) = (a = b \<and> a \<noteq> ''NaN'')"
| "strict_eq (JStr a) (JStr b) = (a = b)"
| "strict_eq a b = False"

section \<open>The query engine (tig\_local\_query.js)\<close>

text \<open>
  The part of Node the query engine calls: \<^verbatim>\<open>process.cwd\<close>, \<^verbatim>\<open>path.basename\<close>,
  \<^verbatim>\<open>path.dirname\<close>, \<^verbatim>\<open>path.join\<close>, \<^verbatim>\<open>fs.existsSync\<close>, and
  \<^verbatim>\<open>JSON.parse(fs.readFileSync(p, 'utf8'))\<close>, which is \<open>None\<close> when the read or the
  parse throws.
\<close>

record query_env =
  q_cwd :: string
  q_basename :: "string \<Rightarrow> string"
  q_dirname :: "string \<Rightarrow> string"
  q_join :: "string \<Rightarrow> string \<Rightarrow> string"
  q_existsSync :: "string \<Rightarrow> bool"
  q_read_json :: "string \<Rightarrow> jsval option"

text \<open>The fields of a \<^verbatim>\<open>TigLocalQuery\<close> object.\<close>

record tig_local_query =
  tigDir_q :: string
  microIndexPath :: string
  shadowDir :: string
  microIndex :: jsval

definition loadJson :: "query_env \<Rightarrow> string \<Rightarrow> jsval \<Rightarrow> jsval" where
  "loadJson env filePath fallback =
     (case q_read_json env filePath of Some v \<Rightarrow> v | None \<Rightarrow> fallback)"

definition empty_index :: jsval where
  "empty_index = JObj [(''conversations'', JObj []), (''snapshots'', JObj []),
     (''last_conversation_id'', JNum ''0''), (''last_snapshot_id'', JNum ''0''),
     (''file_index'', JObj [])]"

text \<open>The walk from a directory up to the root; it does not return when
  \<^verbatim>\<open>path.dirname\<close> never reaches a fixed point, which is the value \<open>None\<close>. The inner
  option is the result: the directory found, or \<^verbatim>\<open>null\<close>.\<close>

partial_function (option) findTigDir :: "query_env \<Rightarrow> string \<Rightarrow> string option option" where
  "findTigDir env current =
     (if q_existsSync env (q_join env current ''.tig'') then Some (Some (q_join env current ''.tig''))
      else if q_dirname env current = current then Some None
      else findTigDir env (q_dirname env current))"

declare findTigDir.simps [code]

text \<open>The constructor: \<^verbatim>\<open>tigDir || findTigDir()\<close>, where the argument is \<open>None\<close> when it
  is left out.\<close>

definition new_TigLocalQuery ::
  "query_env \<Rightarrow> string option \<Rightarrow> (error + tig_local_query) option" where
  "new_TigLocalQuery env tigDir =
     (case (case tigDir of
              Some d \<Rightarrow> if d \<noteq> [] then Some (Some d) else findTigDir env (q_cwd env)
            | None \<Rightarrow> findTigDir env (q_cwd env)) of
        None \<Rightarrow> None
      | Some None \<Rightarrow> Some (Inl NoTigDirectory)
      | Some (Some d) \<Rightarrow>
          if d = [] then Some (Inl NoTigDirectory)
          else let mip = q_join env d ''micro_index.json'' in
            Some (Inr \<lparr>tigDir_q = d, microIndexPath = mip,
                       shadowDir = q_join env d ''shadow'',
                       microIndex = loadJson env mip empty_index\<rparr>))"

subsection \<open>getShadowContext\<close>

text \<open>The loop over \<^verbatim>\<open>history\<close>: the object built from the first entry that is truthy
  and whose \<^verbatim>\<open>conversation_id\<close> is \<^verbatim>\<open>===\<close> the target, \<open>None\<close> when the loop ends.\<close>

definition entry_matches :: "jsval \<Rightarrow> jsval \<Rightarrow> bool" where
  "entry_matches entry conversationId =
     (truthy entry \<and> strict_eq (js_get entry ''conversation_id'') conversationId)"

definition context_of :: "jsval \<Rightarrow> jsval" where
  "context_of entry = JObj
     [(''ai_response'', js_or (js_get entry ''ai_response'') (JStr [])),
      (''tool_operations'', js_or (js_get entry ''tool_operations'') (JArr [])),
      (''user_prompt'', js_or (js_get entry ''user_prompt'') (JStr [])),
      (''timestamp'', js_or (js_get entry ''timestamp'') (JStr []))]"

fun scan_history :: "jsval list \<Rightarrow> jsval \<Rightarrow> jsval option" where
  "scan_history [] conversationId = None"
| "scan_history (entry # rest) conversationId =
     (if entry_matches entry conversationId then Some (context_of entry)
      else scan_history rest conversationId)"

text \<open>\<^verbatim>\<open>Array.isArray(v) ? v : []\<close>.\<close>

fun array_or_empty :: "jsval \<Rightarrow> jsval list" where
  "array_or_empty (JArr xs) = xs"
| "array_or_empty v = []"

definition shadow_file :: "query_env \<Rightarrow> tig_local_query \<Rightarrow> string \<Rightarrow> string" where
  "shadow_file env q filePath =
     q_join env (shadowDir q) (q_basename env filePath @ ''.tig'')"

text \<open>Everything after the existence test is inside \<^verbatim>\<open>try\<close>: a failed read or parse,
  and \<^verbatim>\<open>data.history\<close> on a file that holds \<^verbatim>\<open>null\<close>, end in the empty object.\<close>

definition getShadowContext ::
  "query_env \<Rightarrow> tig_local_query \<Rightarrow> string \<Rightarrow> jsval \<Rightarrow> jsval" where
  "getShadowContext env q filePath conversationId =
     (let shadowFile = shadow_file env q filePath in
      if \<not> q_existsSync env shadowFile then JObj []
      else case q_read_json env shadowFile of
             None \<Rightarrow> JObj []
           | Some data \<Rightarrow>
               if nullish data then JObj []
               else case scan_history (array_or_empty (js_get data ''history'')) conversationId of
                      Some ctx \<Rightarrow> ctx
                    | None \<Rightarrow> JObj [])"

subsection \<open>getBlameInfo\<close>

record blame_info =
  conversation_id :: jsval
  user_prompt :: jsval
  prompt :: jsval
  ai_response :: jsval
  timestamp :: jsval
  tool_operations :: jsval
  commit_hash :: "string option"
  file_path :: "string option"

text \<open>\<^verbatim>\<open>(snapData && snapData.commit) || ''\<close>\<close>

definition stored_commit :: "jsval \<Rightarrow> jsval" where
  "stored_commit snapData = js_or (js_and snapData (js_get snapData ''commit'')) (JStr [])"

text \<open>
  The loop over the snapshots. The result is the variable \<^verbatim>\<open>snapshot\<close> after the loop,
  \<^verbatim>\<open>null\<close> when no entry was taken. \<open>stored\<close> is the empty string or a truthy value; when
  it is not a string, \<^verbatim>\<open>stored === commitHash\<close> is false and \<^verbatim>\<open>stored.startsWith\<close> is
  not a function, so the call throws a TypeError. For two strings equality implies
  \<^verbatim>\<open>startsWith\<close>.
\<close>

fun find_snapshot :: "(string \<times> jsval) list \<Rightarrow> string \<Rightarrow> error + jsval" where
  "find_snapshot [] commitHash = Inr JNull"
| "find_snapshot ((snapId, snapData) # rest) commitHash =
     (case stored_commit snapData of
        JStr stored \<Rightarrow>
          if stored = commitHash \<or> prefix commitHash stored then Inr snapData
          else find_snapshot rest commitHash
      | _ \<Rightarrow> Inl TypeError)"

definition not_found :: blame_info where
  "not_found = \<lparr>conversation_id = JNull, user_prompt = JNull, prompt = JNull,
     ai_response = JNull, timestamp = JNull, tool_operations = JArr [],
     commit_hash = None, file_path = None\<rparr>"

definition snapshot_entries :: "tig_local_query \<Rightarrow> (string \<times> jsval) list" where
  "snapshot_entries q = object_entries (js_or (js_get (microIndex q) ''snapshots'') (JObj []))"

definition lookup_conversation :: "tig_local_query \<Rightarrow> jsval \<Rightarrow> jsval" where
  "lookup_conversation q convId =
     js_or (js_get (js_or (js_get (microIndex q) ''conversations'') (JObj []))
                   (js_to_string convId))
           (JObj [])"

text \<open>\<^verbatim>\<open>responses.length ? responses[0] : ''\<close>\<close>

fun first_response :: "jsval list \<Rightarrow> jsval" where
  "first_response [] = JStr []"
| "first_response (r # rs) = r"

definition compose_blame ::
  "jsval \<Rightarrow> jsval \<Rightarrow> jsval \<Rightarrow> string \<Rightarrow> string \<Rightarrow> blame_info" where
  "compose_blame snapshot conversation shadowContext commitHash filePath =
     (let convId = js_get snapshot ''conversation_id'';
          responses = array_or_empty (js_get conversation ''responses'')
      in \<lparr>conversation_id = convId,
          user_prompt = js_or (js_get conversation ''prompt'') (JStr []),
          prompt = js_or (js_get conversation ''prompt'') (JStr []),
          ai_response = js_or (js_get shadowContext ''ai_response'') (first_response responses),
          timestamp = js_or (js_get snapshot ''timestamp'')
                        (js_or (js_get conversation ''start_time'') (JStr [])),
          tool_operations = js_or (js_get shadowContext ''tool_operations'') (JArr []),
          commit_hash = Some commitHash,
          file_path = Some filePath\<rparr>)"

text \<open>
  \<^verbatim>\<open>this.microIndex.snapshots\<close> is the first read of the method: it throws when the
  index file holds \<^verbatim>\<open>null\<close>. A snapshot that was taken but is falsy (an entry whose value
  is \<^verbatim>\<open>null\<close>, \<^verbatim>\<open>false\<close>, \<^verbatim>\<open>0\<close> or \<^verbatim>\<open>""\<close>) goes the way of no snapshot at
  \<^verbatim>\<open>if (!snapshot)\<close>.
\<close>

definition getBlameInfo ::
  "query_env \<Rightarrow> tig_local_query \<Rightarrow> string \<Rightarrow> string \<Rightarrow> error + blame_info" where
  "getBlameInfo env q commitHash filePath =
     (if nullish (microIndex q) then Inl TypeError
      else case find_snapshot (snapshot_entries q) commitHash of
             Inl e \<Rightarrow> Inl e
           | Inr snapshot \<Rightarrow>
               if \<not> truthy snapshot then Inr not_found
               else
                 let convId = js_get snapshot ''conversation_id'';
                     conversation = lookup_conversation q convId;
                     shadowContext = js_or (getShadowContext env q filePath convId) (JObj [])
                 in Inr (compose_blame snapshot conversation shadowContext commitHash filePath))"


subsection \<open>Vocabulary for the properties of the snapshot scan\<close>

text \<open>The stored commit value of a snapshot is text (a string, the empty one when the
  field is missing or falsy).\<close>

definition commit_is_text :: "jsval \<Rightarrow> bool" where
  "commit_is_text snapData =
     (case stored_commit snapData of JStr stored \<Rightarrow> True | _ \<Rightarrow> False)"

text \<open>The stored commit value equals the query hash or starts with it.\<close>

definition commit_matches :: "jsval \<Rightarrow> string \<Rightarrow> bool" where
  "commit_matches snapData commitHash =
     (case stored_commit snapData of
        JStr stored \<Rightarrow> stored = commitHash \<or> prefix commitHash stored
      | _ \<Rightarrow> False)"

text \<open>The commit of a snapshot read from the data: the string in its \<^verbatim>\<open>commit\<close> field,
  the empty string when the snapshot or the field is missing or falsy, and nothing when
  the field holds a truthy value that is not a string.\<close>

definition commit_text :: "jsval \<Rightarrow> string option" where
  "commit_text snapData =
     (if \<not> truthy snapData then Some []
      else case js_get snapData ''commit'' of
             JStr c \<Rightarrow> Some c
           | v \<Rightarrow> if truthy v then None else Some [])"

subsection \<open>A small project to run the query engine on\<close>

text \<open>A POSIX-like \<^verbatim>\<open>path\<close> for the examples: the last segment of a path, and the path
  without its last segment.\<close>

definition last_segment :: "string \<Rightarrow> string" where
  "last_segment p = rev (takeWhile (\<lambda>c. c \<noteq> CHR ''/'') (rev p))"

definition parent_of :: "string \<Rightarrow> string" where
  "parent_of p =
     (let r = rev (drop 1 (dropWhile (\<lambda>c. c \<noteq> CHR ''/'') (rev p)))
      in if r = [] then ''/'' else r)"

definition demo_shadow :: jsval where
  "demo_shadow = JObj [(''history'', JArr
     [JObj [(''conversation_id'', JStr ''C0''), (''ai_response'', JStr ''other'')],
      JObj [(''conversation_id'', JStr ''C1''), (''ai_response'', JStr ''Added JWT auth''),
            (''tool_operations'', JArr [JObj [(''op'', JStr ''write'')]])],
      JObj [(''conversation_id'', JStr ''C1''), (''ai_response'', JStr ''Second pass'')],
      JObj [(''conversation_id'', JStr ''C2''), (''ai_response'', JStr []),
            (''user_prompt'', JStr ''tidy'')]])]"

definition demo_env :: query_env where
  "demo_env = \<lparr>q_cwd = ''/proj'', q_basename = last_segment, q_dirname = parent_of,
     q_join = (\<lambda>a b. a @ ''/'' @ b),
     q_existsSync = (\<lambda>p. p = ''/proj/.tig/shadow/auth.js.tig''),
     q_read_json = (\<lambda>p. if p = ''/proj/.tig/shadow/auth.js.tig'' then Some demo_shadow
                          else None)\<rparr>"

definition demo_index :: jsval where
  "demo_index = JObj
     [(''conversations'', JObj
        [(''C1'', JObj [(''prompt'', JStr ''add auth''), (''responses'', JArr [JStr ''done''])]),
         (''C2'', JObj [(''prompt'', JStr ''tidy up''), (''start_time'', JStr ''T0''),
                        (''responses'', JArr [JStr ''tidied'', JStr ''again''])])]),
      (''snapshots'', JObj
        [(''S1'', JObj [(''commit'', JStr ''deadbeef01''), (''conversation_id'', JStr ''C1''),
                        (''timestamp'', JStr ''T1'')]),
         (''S2'', JObj [(''commit'', JStr ''deadbeef02''), (''conversation_id'', JStr ''C2'')]),
         (''S3'', JObj [(''commit'', JStr ''abc123def''), (''conversation_id'', JStr ''C2'')])])]"

definition demo_query :: tig_local_query where
  "demo_query = \<lparr>tigDir_q = ''/proj/.tig'', microIndexPath = ''/proj/.tig/micro_index.json'',
     shadowDir = ''/proj/.tig/shadow'', microIndex = demo_index\<rparr>"

text \<open>Three indexes outside the data model: a snapshot whose commit is a number, an
  index file that holds \<^verbatim>\<open>null\<close>, and a snapshots map whose first value is \<^verbatim>\<open>null\<close>.\<close>

definition numeric_commit_query :: tig_local_query where
  "numeric_commit_query = demo_query\<lparr>microIndex := JObj
     [(''conversations'', JObj []),
      (''snapshots'', JObj
        [(''S1'', JObj [(''commit'', JNum ''5''), (''conversation_id'', JStr ''C1'')])])]\<rparr>"

definition null_index_query :: tig_local_query where
  "null_index_query = demo_query\<lparr>microIndex := JNull\<rparr>"


section \<open>The sync script (tig\_sync.js)\<close>

text \<open>
  The script talks to the file system and to git. Both are outside the repository, so
  the model takes them as a parameter: a record of the functions of \<^verbatim>\<open>fs\<close>, \<^verbatim>\<open>path\<close>
  and \<^verbatim>\<open>child_process\<close> that the script calls, over a state \<open>'s\<close> of the machine (the
  disk and the repository). A call that can change the machine returns the new state; a
  call that throws returns \<open>False\<close> or \<open>None\<close>.

  \<^item> \<open>n_accessSync s p\<close>: \<^verbatim>\<open>fs.accessSync(p, F_OK)\<close> returns.
  \<^item> \<open>n_readdirSync s p\<close>: \<^verbatim>\<open>fs.readdirSync(p, {withFileTypes: true})\<close>, each entry
    with its name and kind.
  \<^item> \<open>n_readFileSync s p\<close>: the bytes of the file.
  \<^item> \<open>n_unlinkSync\<close>, \<open>n_mkdirSync\<close> (with \<^verbatim>\<open>recursive: true\<close>), \<open>n_copyFileSync\<close>.
  \<^item> \<open>n_git s cwd args\<close>: \<^verbatim>\<open>execFileSync('git', args, {cwd})\<close>, the standard output
    when git exits with 0.
\<close>

type_synonym buffer = "8 word list"

datatype dirent_kind = Directory | RegularFile | OtherEntry

record 's node =
  n_accessSync :: "'s \<Rightarrow> string \<Rightarrow> bool"
  n_readdirSync :: "'s \<Rightarrow> string \<Rightarrow> (string \<times> dirent_kind) list option"
  n_readFileSync :: "'s \<Rightarrow> string \<Rightarrow> buffer option"
  n_unlinkSync :: "'s \<Rightarrow> string \<Rightarrow> bool \<times> 's"
  n_mkdirSync :: "'s \<Rightarrow> string \<Rightarrow> bool \<times> 's"
  n_copyFileSync :: "'s \<Rightarrow> string \<Rightarrow> string \<Rightarrow> bool \<times> 's"
  n_git :: "'s \<Rightarrow> string \<Rightarrow> string list \<Rightarrow> string option \<times> 's"
  n_join :: "string \<Rightarrow> string \<Rightarrow> string"
  n_relative :: "string \<Rightarrow> string \<Rightarrow> string"
  n_basename :: "string \<Rightarrow> string"
  n_dirname :: "string \<Rightarrow> string"
  n_extname :: "string \<Rightarrow> string"
  n_sep :: string

text \<open>The machine together with the record of the calls that can change it, oldest
  first. The record is what "a file operation was attempted" and "the commit step was
  invoked" are statements about.\<close>

datatype call =
    Unlink string
  | Mkdir string
  | CopyFile string string
  | Git string "string list"

record 's world =
  state :: 's
  calls :: "call list"

definition unlinkSync :: "'s node \<Rightarrow> 's world \<Rightarrow> string \<Rightarrow> bool \<times> 's world" where
  "unlinkSync node w p =
     (case n_unlinkSync node (state w) p of
        (ok, s') \<Rightarrow> (ok, \<lparr>state = s', calls = calls w @ [Unlink p]\<rparr>))"

definition mkdirSync :: "'s node \<Rightarrow> 's world \<Rightarrow> string \<Rightarrow> bool \<times> 's world" where
  "mkdirSync node w p =
     (case n_mkdirSync node (state w) p of
        (ok, s') \<Rightarrow> (ok, \<lparr>state = s', calls = calls w @ [Mkdir p]\<rparr>))"

definition copyFileSync :: "'s node \<Rightarrow> 's world \<Rightarrow> string \<Rightarrow> string \<Rightarrow> bool \<times> 's world" where
  "copyFileSync node w src dst =
     (case n_copyFileSync node (state w) src dst of
        (ok, s') \<Rightarrow> (ok, \<lparr>state = s', calls = calls w @ [CopyFile src dst]\<rparr>))"

definition execGit ::
  "'s node \<Rightarrow> 's world \<Rightarrow> string \<Rightarrow> string list \<Rightarrow> string option \<times> 's world" where
  "execGit node w cwd args =
     (case n_git node (state w) cwd args of
        (out, s') \<Rightarrow> (out, \<lparr>state = s', calls = calls w @ [Git cwd args]\<rparr>))"

text \<open>\<^verbatim>\<open>exists(p)\<close>: whether \<^verbatim>\<open>accessSync\<close> returns.\<close>

definition exists :: "'s node \<Rightarrow> 's \<Rightarrow> string \<Rightarrow> bool" where
  "exists node s p = n_accessSync node s p"

definition rel :: "'s node \<Rightarrow> string \<Rightarrow> string \<Rightarrow> string" where
  "rel node from to = n_relative node from to"

subsection \<open>readDirRecursive\<close>

text \<open>The \<^verbatim>\<open>for\<close> loop over the entries of one directory. The stack grows at its end,
  where \<^verbatim>\<open>pop\<close> takes from.\<close>

fun visit_entries ::
  "'s node \<Rightarrow> (string \<Rightarrow> string \<Rightarrow> bool) \<Rightarrow> string \<Rightarrow> (string \<times> dirent_kind) list \<Rightarrow>
   string list \<times> string list \<Rightarrow> string list \<times> string list" where
  "visit_entries node filterDirs current [] (stack, results) = (stack, results)"
| "visit_entries node filterDirs current ((name, kind) # ents) (stack, results) =
     (let full = n_join node current name in
      visit_entries node filterDirs current ents
        (case kind of
           Directory \<Rightarrow> (if filterDirs name full then stack @ [full] else stack, results)
         | RegularFile \<Rightarrow> (stack, results @ [full])
         | OtherEntry \<Rightarrow> (stack, results)))"

text \<open>The \<^verbatim>\<open>while (stack.length)\<close> loop. A failed \<^verbatim>\<open>readdirSync\<close> is not caught. On a
  tree without end the loop does not return, which is the value \<open>None\<close>.\<close>

partial_function (option) readDir_loop ::
  "'s node \<Rightarrow> 's \<Rightarrow> (string \<Rightarrow> string \<Rightarrow> bool) \<Rightarrow> string list \<Rightarrow> string list \<Rightarrow>
   (error + string list) option" where
  "readDir_loop node s filterDirs stack results =
     (if stack = [] then Some (Inr results)
      else case n_readdirSync node s (last stack) of
             None \<Rightarrow> Some (Inl IOError)
           | Some entries \<Rightarrow>
               readDir_loop node s filterDirs
                 (fst (visit_entries node filterDirs (last stack) entries (butlast stack, results)))
                 (snd (visit_entries node filterDirs (last stack) entries (butlast stack, results))))"

declare readDir_loop.simps [code]

definition readDirRecursive ::
  "'s node \<Rightarrow> 's \<Rightarrow> string \<Rightarrow> (string \<Rightarrow> string \<Rightarrow> bool) \<Rightarrow> (error + string list) option" where
  "readDirRecursive node s dir filterDirs = readDir_loop node s filterDirs [dir] []"

subsection \<open>The TigSync object\<close>

record tig_sync =
  projectDir :: string
  tigDir :: string
  verbose :: bool
  files_synced :: "string list"
  files_added :: "string list"
  files_modified :: "string list"
  files_deleted :: "string list"
  force :: bool

definition new_TigSync :: "'s node \<Rightarrow> string \<Rightarrow> bool \<Rightarrow> tig_sync" where
  "new_TigSync node dir verb =
     \<lparr>projectDir = dir, tigDir = n_join node dir ''.tig'', verbose = verb,
      files_synced = [], files_added = [], files_modified = [], files_deleted = [],
      force = False\<rparr>"

subsection \<open>validateSetup\<close>

text \<open>\<^verbatim>\<open>out.trim()\<close>: white space and line terminators leave both ends.\<close>

definition js_space :: "char \<Rightarrow> bool" where
  "js_space c = (c \<in> set [CHR 0x09, CHR 0x0A, CHR 0x0B, CHR 0x0C, CHR 0x0D, CHR 0x20, CHR 0xA0])"

definition js_trim :: "string \<Rightarrow> string" where
  "js_trim out = rev (dropWhile js_space (rev (dropWhile js_space out)))"

text \<open>The lines that \<open>validateSetup\<close> prints, without the pictograph that starts each
  of them in the source.\<close>

definition msg_no_tig :: "string list" where
  "msg_no_tig = [''No .tig directory found'', ''Run a Claude session first to initialize Tig'']"

definition msg_not_git :: "string list" where
  "msg_not_git = [''.tig is not a git repository'',
                  ''Run 'uv run tig_submodule_setup.py' to fix this'']"

definition msg_uncommitted :: "string list" where
  "msg_uncommitted = [''Uncommitted changes in .tig directory'',
                      ''Commit or stash changes first, or use --force'']"

definition msg_status_failed :: "string list" where
  "msg_status_failed = [''Failed to check git status in .tig'']"

text \<open>The result, the lines printed, and the machine after the call.\<close>

definition validateSetup ::
  "'s node \<Rightarrow> tig_sync \<Rightarrow> 's world \<Rightarrow> bool \<times> string list \<times> 's world" where
  "validateSetup node t w =
     (if \<not> exists node (state w) (tigDir t) then (False, msg_no_tig, w)
      else if \<not> exists node (state w) (n_join node (tigDir t) ''.git'')
        then (False, msg_not_git, w)
      else case execGit node w (tigDir t) [''status'', ''--porcelain''] of
             (Some out, w') \<Rightarrow>
               if js_trim out \<noteq> [] \<and> \<not> force t then (False, msg_uncommitted, w')
               else (True, [], w')
           | (None, w') \<Rightarrow> (False, msg_status_failed, w'))"

subsection \<open>findModifiedFiles\<close>

definition reserved_names :: "string list" where
  "reserved_names =
     [''micro_index.json'', ''session_state.json'', ''config.json'', ''.git'', ''.gitignore'']"

definition allowed :: "string list" where
  "allowed = [''.py'', ''.js'', ''.ts'', ''.jsx'', ''.tsx'', ''.java'', ''.c'', ''.cpp'', ''.go'',
     ''.rs'', ''.txt'', ''.md'', ''.json'', ''.xml'', ''.yaml'', ''.yml'', ''.toml'', ''.ini'',
     ''.cfg'', ''.html'', ''.css'', ''.scss'', ''.sass'', ''.less'']"

text \<open>The first loop of the discovery branch: the files of the mirror that are checked.\<close>

definition tracked_paths :: "'s node \<Rightarrow> tig_sync \<Rightarrow> string list \<Rightarrow> string list" where
  "tracked_paths node t tigFiles =
     filter (\<lambda>rp. n_basename node rp \<notin> set reserved_names)
       (map (\<lambda>f. rel node (tigDir t) f) tigFiles)"

text \<open>The second loop: the files of the project that are new.\<close>

definition is_new_project_file ::
  "'s node \<Rightarrow> tig_sync \<Rightarrow> 's \<Rightarrow> string list \<Rightarrow> string \<Rightarrow> bool" where
  "is_new_project_file node t s filesToCheck f =
     (let rp = rel node (projectDir t) f;
          bn = n_basename node f;
          ext = n_extname node f
      in \<not> prefix (''.tig'' @ n_sep node) rp \<and>
         \<not> (bn = ''.DS_Store'' \<or> bn = ''Thumbs.db'') \<and>
         (ext \<in> set allowed \<or> bn \<in> set [''.gitignore'', ''Makefile'', ''Dockerfile'']) \<and>
         \<not> exists node s (n_join node (tigDir t) rp) \<and> rp \<notin> set filesToCheck)"

definition new_project_paths ::
  "'s node \<Rightarrow> tig_sync \<Rightarrow> 's \<Rightarrow> string list \<Rightarrow> string list \<Rightarrow> string list" where
  "new_project_paths node t s filesToCheck projectFiles =
     map (\<lambda>f. rel node (projectDir t) f)
       (filter (is_new_project_file node t s filesToCheck) projectFiles)"

text \<open>The last loop, one path at a time, on the three lists \<open>(modified, newFiles, deleted)\<close>.
  A read that throws during the comparison puts the path in \<open>modified\<close>.\<close>

definition check_path ::
  "'s node \<Rightarrow> tig_sync \<Rightarrow> 's \<Rightarrow> string \<Rightarrow> string list \<times> string list \<times> string list \<Rightarrow>
   string list \<times> string list \<times> string list" where
  "check_path node t s rp acc =
     (case acc of (modified, newFiles, deleted) \<Rightarrow>
        let mainPath = n_join node (projectDir t) rp;
            tigPath = n_join node (tigDir t) rp
        in if \<not> exists node s mainPath then (modified, newFiles, deleted @ [rp])
           else if \<not> exists node s tigPath then (modified, newFiles @ [rp], deleted)
           else case n_readFileSync node s mainPath of
                  None \<Rightarrow> (modified @ [rp], newFiles, deleted)
                | Some a \<Rightarrow>
                    (case n_readFileSync node s tigPath of
                       None \<Rightarrow> (modified @ [rp], newFiles, deleted)
                     | Some b \<Rightarrow>
                         if a \<noteq> b then (modified @ [rp], newFiles, deleted)
                         else (modified, newFiles, deleted)))"

fun check_paths ::
  "'s node \<Rightarrow> tig_sync \<Rightarrow> 's \<Rightarrow> string list \<Rightarrow> string list \<times> string list \<times> string list \<Rightarrow>
   string list \<times> string list \<times> string list" where
  "check_paths node t s [] acc = acc"
| "check_paths node t s (rp # rest) acc =
     check_paths node t s rest (check_path node t s rp acc)"

text \<open>An empty list of paths, like no list, selects the discovery branch.\<close>

definition findModifiedFiles ::
  "'s node \<Rightarrow> tig_sync \<Rightarrow> 's \<Rightarrow> string list \<Rightarrow>
   (error + string list \<times> string list \<times> string list) option" where
  "findModifiedFiles node t s specificFiles =
     (if specificFiles \<noteq> [] then Some (Inr (check_paths node t s specificFiles ([], [], [])))
      else case readDirRecursive node s (tigDir t)
                  (\<lambda>name full. name \<notin> set [''.git'', ''cache'', ''shadow'']) of
             None \<Rightarrow> None
           | Some (Inl e) \<Rightarrow> Some (Inl e)
           | Some (Inr tigFiles) \<Rightarrow>
               (case readDirRecursive node s (projectDir t)
                       (\<lambda>name full. \<not> prefix ''.'' name) of
                  None \<Rightarrow> None
                | Some (Inl e) \<Rightarrow> Some (Inl e)
                | Some (Inr projectFiles) \<Rightarrow>
                    let filesToCheck = tracked_paths node t tigFiles;
                        newFiles = new_project_paths node t s filesToCheck projectFiles
                    in Some (Inr (check_paths node t s filesToCheck ([], newFiles, [])))))"

subsection \<open>syncFileToTig\<close>

text \<open>Every call is inside \<^verbatim>\<open>try\<close>: one that throws ends the method with \<^verbatim>\<open>false\<close>.\<close>

definition syncFileToTig ::
  "'s node \<Rightarrow> tig_sync \<Rightarrow> 's world \<Rightarrow> string \<Rightarrow> bool \<Rightarrow> bool \<times> 's world" where
  "syncFileToTig node t w rp isDeletion =
     (let mainPath = n_join node (projectDir t) rp;
          tigPath = n_join node (tigDir t) rp
      in if isDeletion then
           (if exists node (state w) tigPath then unlinkSync node w tigPath else (True, w))
         else case mkdirSync node w (n_dirname node tigPath) of
                (False, w') \<Rightarrow> (False, w')
              | (True, w') \<Rightarrow> copyFileSync node w' mainPath tigPath)"

subsection \<open>sync\<close>

text \<open>The two loops that apply the changes: the object, the machine and
  \<^verbatim>\<open>successCount\<close> go from one path to the next, whatever the result for the path.\<close>

fun sync_changed ::
  "'s node \<Rightarrow> string list \<Rightarrow> tig_sync \<times> 's world \<times> nat \<Rightarrow> tig_sync \<times> 's world \<times> nat" where
  "sync_changed node [] acc = acc"
| "sync_changed node (f # rest) (t, w, successCount) =
     (case syncFileToTig node t w f False of
        (True, w') \<Rightarrow>
          sync_changed node rest (t\<lparr>files_synced := files_synced t @ [f]\<rparr>, w', Suc successCount)
      | (False, w') \<Rightarrow> sync_changed node rest (t, w', successCount))"

fun sync_deleted ::
  "'s node \<Rightarrow> string list \<Rightarrow> tig_sync \<times> 's world \<times> nat \<Rightarrow> tig_sync \<times> 's world \<times> nat" where
  "sync_deleted node [] acc = acc"
| "sync_deleted node (f # rest) (t, w, successCount) =
     (case syncFileToTig node t w f True of
        (True, w') \<Rightarrow> sync_deleted node rest (t, w', Suc successCount)
      | (False, w') \<Rightarrow> sync_deleted node rest (t, w', successCount))"

text \<open>The commit message: \<^verbatim>\<open>!message\<close> holds for \<^verbatim>\<open>null\<close> and for the empty string.\<close>

definition commit_message :: "tig_sync \<Rightarrow> string option \<Rightarrow> string" where
  "commit_message t message =
     (let parts =
            (if files_modified t \<noteq> []
             then [''modified '' @ show_nat (length (files_modified t)) @ '' file(s)''] else []) @
            (if files_added t \<noteq> []
             then [''added '' @ show_nat (length (files_added t)) @ '' file(s)''] else []) @
            (if files_deleted t \<noteq> []
             then [''deleted '' @ show_nat (length (files_deleted t)) @ '' file(s)''] else [])
      in case message of
           None \<Rightarrow> ''manual: Sync '' @ join_with '', '' parts
         | Some m \<Rightarrow> if m = [] then ''manual: Sync '' @ join_with '', '' parts
                     else ''manual: '' @ m)"

text \<open>The \<^verbatim>\<open>try\<close> block that stages and commits: any of the three calls of git that
  throws ends it with \<^verbatim>\<open>false\<close>.\<close>

definition create_commit ::
  "'s node \<Rightarrow> tig_sync \<Rightarrow> 's world \<Rightarrow> string option \<Rightarrow> bool \<times> 's world" where
  "create_commit node t w message =
     (case execGit node w (tigDir t) [''add'', ''-A''] of
        (None, w1) \<Rightarrow> (False, w1)
      | (Some out1, w1) \<Rightarrow>
          (case execGit node w1 (tigDir t) [''commit'', ''-m'', commit_message t message] of
             (None, w2) \<Rightarrow> (False, w2)
           | (Some out2, w2) \<Rightarrow>
               (case execGit node w2 (tigDir t) [''rev-parse'', ''HEAD''] of
                  (None, w3) \<Rightarrow> (False, w3)
                | (Some commitHash, w3) \<Rightarrow> (True, w3))))"

text \<open>What a call of \<open>sync\<close> leaves: its result, the lines \<open>validateSetup\<close> printed, the
  object and the machine. The progress lines that the other methods print are not part
  of the model. The outer option is \<open>None\<close> when the discovery does not return, the sum is
  \<open>Inl\<close> when it throws.\<close>

record 's sync_result =
  ok :: bool
  printed :: "string list"
  object :: tig_sync
  after :: "'s world"

definition sync ::
  "'s node \<Rightarrow> tig_sync \<Rightarrow> 's world \<Rightarrow> string list \<Rightarrow> string option \<Rightarrow> bool \<Rightarrow>
   (error + 's sync_result) option" where
  "sync node t0 w0 files message force_opt =
     (let t = t0\<lparr>force := force_opt\<rparr> in
      case validateSetup node t w0 of
        (False, out, w) \<Rightarrow> Some (Inr \<lparr>ok = False, printed = out, object = t, after = w\<rparr>)
      | (True, out, w) \<Rightarrow>
          (case findModifiedFiles node t (state w) files of
             None \<Rightarrow> None
           | Some (Inl e) \<Rightarrow> Some (Inl e)
           | Some (Inr (modified, newFiles, deleted)) \<Rightarrow>
               let t1 = t\<lparr>files_modified := modified, files_added := newFiles,
                          files_deleted := deleted\<rparr>
               in if modified = [] \<and> newFiles = [] \<and> deleted = []
                  then Some (Inr \<lparr>ok = True, printed = out, object = t1, after = w\<rparr>)
                  else
                    (case sync_deleted node deleted
                            (sync_changed node (modified @ newFiles) (t1, w, 0)) of
                       (t2, w2, successCount) \<Rightarrow>
                         if successCount = 0
                         then Some (Inr \<lparr>ok = False, printed = out, object = t2, after = w2\<rparr>)
                         else (case create_commit node t2 w2 message of
                                 (res, w3) \<Rightarrow>
                                   Some (Inr \<lparr>ok = res, printed = out, object = t2,
                                              after = w3\<rparr>)))))"

subsection \<open>Vocabulary for the properties of the sync script\<close>

text \<open>A relative path is in the project, or in the mirror, when the path joined to the
  root exists; the bytes of the two files differ, or are equal, when both reads succeed
  and give different, or equal, buffers.\<close>

definition in_project :: "'s node \<Rightarrow> tig_sync \<Rightarrow> 's \<Rightarrow> string \<Rightarrow> bool" where
  "in_project node t s rp = exists node s (n_join node (projectDir t) rp)"

definition in_mirror :: "'s node \<Rightarrow> tig_sync \<Rightarrow> 's \<Rightarrow> string \<Rightarrow> bool" where
  "in_mirror node t s rp = exists node s (n_join node (tigDir t) rp)"

definition bytes_differ :: "'s node \<Rightarrow> tig_sync \<Rightarrow> 's \<Rightarrow> string \<Rightarrow> bool" where
  "bytes_differ node t s rp =
     (case (n_readFileSync node s (n_join node (projectDir t) rp),
            n_readFileSync node s (n_join node (tigDir t) rp)) of
        (Some a, Some b) \<Rightarrow> a \<noteq> b
      | _ \<Rightarrow> False)"

definition bytes_equal :: "'s node \<Rightarrow> tig_sync \<Rightarrow> 's \<Rightarrow> string \<Rightarrow> bool" where
  "bytes_equal node t s rp =
     (case (n_readFileSync node s (n_join node (projectDir t) rp),
            n_readFileSync node s (n_join node (tigDir t) rp)) of
        (Some a, Some b) \<Rightarrow> a = b
      | _ \<Rightarrow> False)"

text \<open>The results of \<open>syncFileToTig\<close> on the paths of a list, one after the other, each
  call on the machine that the one before left; and the machine after the last.\<close>

fun file_results ::
  "'s node \<Rightarrow> tig_sync \<Rightarrow> bool \<Rightarrow> string list \<Rightarrow> 's world \<Rightarrow> bool list \<times> 's world" where
  "file_results node t isDeletion [] w = ([], w)"
| "file_results node t isDeletion (f # rest) w =
     (case syncFileToTig node t w f isDeletion of
        (r, w') \<Rightarrow> (case file_results node t isDeletion rest w' of
                      (rs, w'') \<Rightarrow> (r # rs, w'')))"

text \<open>The calls of git among the calls made.\<close>

fun is_git :: "call \<Rightarrow> bool" where
  "is_git (Git cwd args) = True"
| "is_git c = False"

subsection \<open>A small machine to run the sync script on\<close>

text \<open>Files with their bytes, directories, the output of \<^verbatim>\<open>git status\<close> (\<open>None\<close> when
  git fails), and the messages of the commits made. A directory cannot be read, unlinked
  or copied as a file.\<close>

record machine =
  m_files :: "(string \<times> buffer) list"
  m_dirs :: "string list"
  m_status :: "string option"
  m_commits :: "string list"

definition ext_of :: "string \<Rightarrow> string" where
  "ext_of p =
     (let b = last_segment p
      in if CHR ''.'' \<in> set (drop 1 b) then CHR ''.'' # rev (takeWhile (\<lambda>c. c \<noteq> CHR ''.'') (rev b))
         else [])"

definition demo_node :: "machine node" where
  "demo_node =
     \<lparr>n_accessSync = (\<lambda>s p. p \<in> set (m_dirs s) \<or> map_of (m_files s) p \<noteq> None),
      n_readdirSync = (\<lambda>s p.
         if p \<in> set (m_dirs s)
         then Some (map (\<lambda>d. (last_segment d, Directory)) (filter (\<lambda>d. parent_of d = p) (m_dirs s)) @
                    map (\<lambda>f. (last_segment f, RegularFile))
                      (filter (\<lambda>f. parent_of f = p) (map fst (m_files s))))
         else None),
      n_readFileSync = (\<lambda>s p. map_of (m_files s) p),
      n_unlinkSync = (\<lambda>s p.
         if map_of (m_files s) p \<noteq> None
         then (True, s\<lparr>m_files := filter (\<lambda>e. fst e \<noteq> p) (m_files s)\<rparr>)
         else (False, s)),
      n_mkdirSync = (\<lambda>s p.
         if map_of (m_files s) p \<noteq> None then (False, s)
         else (True, if p \<in> set (m_dirs s) then s else s\<lparr>m_dirs := m_dirs s @ [p]\<rparr>)),
      n_copyFileSync = (\<lambda>s src dst.
         case map_of (m_files s) src of
           None \<Rightarrow> (False, s)
         | Some b \<Rightarrow>
             if dst \<in> set (m_dirs s) then (False, s)
             else (True, s\<lparr>m_files := (dst, b) # filter (\<lambda>e. fst e \<noteq> dst) (m_files s)\<rparr>)),
      n_git = (\<lambda>s cwd args.
         if args = [''status'', ''--porcelain''] then (m_status s, s)
         else if take 1 args = [''commit''] then (Some [], s\<lparr>m_commits := m_commits s @ [last args]\<rparr>)
         else if args = [''rev-parse'', ''HEAD''] then (Some ''0123456789abcdef'', s)
         else (Some [], s)),
      n_join = (\<lambda>a b. a @ ''/'' @ b),
      n_relative = (\<lambda>a b. drop (Suc (length a)) b),
      n_basename = last_segment,
      n_dirname = parent_of,
      n_extname = ext_of,
      n_sep = ''/''\<rparr>"

definition demo_sync :: tig_sync where
  "demo_sync = new_TigSync demo_node ''/proj'' False"

text \<open>A project with a clean mirror: \<^verbatim>\<open>same.txt\<close> is equal on both sides, \<^verbatim>\<open>edit.js\<close>
  differs, \<^verbatim>\<open>fresh.ts\<close> is only in the project, \<^verbatim>\<open>gone.md\<close> only in the mirror, and
  \<^verbatim>\<open>lib\<close> is a directory of the project.\<close>

definition demo_machine :: machine where
  "demo_machine =
     \<lparr>m_files =
        [(''/proj/same.txt'', [1, 2, 3]), (''/proj/.tig/same.txt'', [1, 2, 3]),
         (''/proj/edit.js'', [4, 5]), (''/proj/.tig/edit.js'', [4]),
         (''/proj/fresh.ts'', [6]),
         (''/proj/.tig/gone.md'', [7]),
         (''/proj/.tig/micro_index.json'', [8])],
      m_dirs = [''/proj'', ''/proj/.tig'', ''/proj/.tig/.git'', ''/proj/.tig/shadow'', ''/proj/lib''],
      m_status = Some [],
      m_commits = []\<rparr>"

definition demo_world :: "machine world" where
  "demo_world = \<lparr>state = demo_machine, calls = []\<rparr>"

text \<open>The same machine without the mirror, with a mirror that is not a repository, and
  with a mirror that has pending changes.\<close>

definition no_tig_machine :: machine where
  "no_tig_machine = demo_machine\<lparr>m_dirs := [''/proj'', ''/proj/lib'']\<rparr>"

definition no_git_machine :: machine where
  "no_git_machine = demo_machine\<lparr>m_dirs := [''/proj'', ''/proj/.tig'', ''/proj/lib'']\<rparr>"

definition dirty_machine :: machine where
  "dirty_machine = demo_machine\<lparr>m_status := Some '' M edit.js''\<rparr>"

section \<open>Properties of the query engine\<close>

lemmas demo_defs = demo_env_def demo_query_def demo_index_def demo_shadow_def
  last_segment_def parent_of_def

subsection \<open>The snapshot scan\<close>

lemma find_snapshot_skip:
  "\<forall>e \<in> set pre. commit_is_text (snd e) \<and> \<not> commit_matches (snd e) h \<Longrightarrow>
   find_snapshot (pre @ rest) h = find_snapshot rest h"
  by (induction pre) (auto simp: commit_is_text_def commit_matches_def split: jsval.splits)

lemma find_snapshot_take:
  "commit_matches s h \<Longrightarrow> find_snapshot ((k, s) # post) h = Inr s"
  by (auto simp: commit_matches_def split: jsval.splits)

lemma find_snapshot_none:
  "\<forall>e \<in> set es. commit_is_text (snd e) \<and> \<not> commit_matches (snd e) h \<Longrightarrow>
   find_snapshot es h = Inr JNull"
  using find_snapshot_skip [of es h "[]"] by simp

lemma find_snapshot_sound:
  "find_snapshot es h = Inr s \<Longrightarrow> s \<noteq> JNull \<Longrightarrow>
   \<exists>pre k post. es = pre @ (k, s) # post \<and> commit_matches s h \<and>
     (\<forall>e \<in> set pre. commit_is_text (snd e) \<and> \<not> commit_matches (snd e) h)"
proof (induction es)
  case Nil
  then show ?case by simp
next
  case (Cons e es)
  obtain k d where e: "e = (k, d)" by (cases e)
  show ?case
  proof (cases "commit_matches d h")
    case True
    with Cons.prems e have "s = d"
      by (auto simp: commit_matches_def split: jsval.splits)
    with True e have "e # es = [] @ (k, s) # es \<and> commit_matches s h" by simp
    then show ?thesis by fastforce
  next
    case False
    from Cons.prems e False obtain t where t: "stored_commit d = JStr t"
      by (auto simp: commit_matches_def split: jsval.splits)
    with False e Cons.prems have "find_snapshot es h = Inr s"
      by (auto simp: commit_matches_def)
    from Cons.IH [OF this Cons.prems(2)] obtain pre k' post where
      p: "es = pre @ (k', s) # post" "commit_matches s h"
         "\<forall>e \<in> set pre. commit_is_text (snd e) \<and> \<not> commit_matches (snd e) h" by blast
    from t have "commit_is_text d" by (simp add: commit_is_text_def)
    with p False e have "e # es = (e # pre) @ (k', s) # post \<and> commit_matches s h \<and>
       (\<forall>e \<in> set (e # pre). commit_is_text (snd e) \<and> \<not> commit_matches (snd e) h)" by simp
    then show ?thesis by blast
  qed
qed

text \<open>
  Claim C1. For every list of snapshots and every query hash, the scan of
  \<open>getBlameInfo\<close> takes a snapshot \<open>s\<close> exactly when \<open>s\<close> is the first entry, in iteration
  order, whose stored commit value equals the query hash or starts with it (the entries
  before it hold text that does not match). A snapshot with commit \<^verbatim>\<open>abc123def\<close> is
  taken for the queries \<^verbatim>\<open>abc123\<close> and \<^verbatim>\<open>abc123def\<close> and not for \<^verbatim>\<open>xyz\<close>.
\<close>

theorem snapshot_scan_first_prefix_match:
  "((find_snapshot es h = Inr s \<and> s \<noteq> JNull) =
    (s \<noteq> JNull \<and> (\<exists>pre k post. es = pre @ (k, s) # post \<and> commit_matches s h \<and>
       (\<forall>e \<in> set pre. commit_is_text (snd e) \<and> \<not> commit_matches (snd e) h)))) \<and>
   find_snapshot [(k1, JObj [(''commit'', JStr ''abc123def'')])] ''abc123''
     = Inr (JObj [(''commit'', JStr ''abc123def'')]) \<and>
   find_snapshot [(k1, JObj [(''commit'', JStr ''abc123def'')])] ''abc123def''
     = Inr (JObj [(''commit'', JStr ''abc123def'')]) \<and>
   find_snapshot [(k1, JObj [(''commit'', JStr ''abc123def'')])] ''xyz'' = Inr JNull"
proof -
  have "(find_snapshot es h = Inr s \<and> s \<noteq> JNull) =
    (s \<noteq> JNull \<and> (\<exists>pre k post. es = pre @ (k, s) # post \<and> commit_matches s h \<and>
       (\<forall>e \<in> set pre. commit_is_text (snd e) \<and> \<not> commit_matches (snd e) h)))"
    using find_snapshot_sound [of es h s] find_snapshot_skip find_snapshot_take
    by metis
  then show ?thesis
    by (simp add: stored_commit_def js_or_def js_and_def)
qed

theorem snapshot_scan_first_prefix_match_witness:
  "find_snapshot (snapshot_entries demo_query) ''deadbeef''
     = Inr (JObj [(''commit'', JStr ''deadbeef01''), (''conversation_id'', JStr ''C1''),
                  (''timestamp'', JStr ''T1'')])"
proof -
  let ?s1 = "JObj [(''commit'', JStr ''deadbeef01''), (''conversation_id'', JStr ''C1''),
                   (''timestamp'', JStr ''T1'')]"
  have split: "snapshot_entries demo_query = [] @ (''S1'', ?s1) # tl (snapshot_entries demo_query)"
    by (simp add: snapshot_entries_def demo_defs js_or_def)
  have m: "commit_matches ?s1 ''deadbeef''"
    by (simp add: commit_matches_def stored_commit_def js_or_def js_and_def)
  have "\<exists>pre k post. snapshot_entries demo_query = pre @ (k, ?s1) # post \<and>
      commit_matches ?s1 ''deadbeef'' \<and>
      (\<forall>e \<in> set pre. commit_is_text (snd e) \<and> \<not> commit_matches (snd e) ''deadbeef'')"
    using split m by (metis empty_iff list.set(1))
  then show ?thesis
    using snapshot_scan_first_prefix_match [of "snapshot_entries demo_query" "''deadbeef''" ?s1]
    by simp
qed

subsection \<open>The shadow lookup\<close>

lemma scan_history_first:
  "entry_matches e cid \<Longrightarrow> \<forall>x \<in> set pre. \<not> entry_matches x cid \<Longrightarrow>
   scan_history (pre @ e # post) cid = Some (context_of e)"
  by (induction pre) auto

lemma getShadowContext_first:
  assumes "q_existsSync env (shadow_file env q f)"
    and "q_read_json env (shadow_file env q f) = Some data"
    and "js_get data ''history'' = JArr (pre @ e # post)"
    and "entry_matches e cid"
    and "\<forall>x \<in> set pre. \<not> entry_matches x cid"
  shows "getShadowContext env q f cid = context_of e"
proof -
  from assms(3) have "\<not> nullish data" by (cases data) auto
  with assms show ?thesis
    by (simp add: getShadowContext_def scan_history_first)
qed

text \<open>
  Claim C2. When the history of the shadow file holds an entry \<open>e\<close> for the target
  conversation and no entry before \<open>e\<close> is for it, \<open>getShadowContext\<close> returns the
  context built from \<open>e\<close>, whatever follows \<open>e\<close> in the history: of two or more entries
  for the same conversation the first in stored order is used, never a later one.
\<close>

theorem shadow_lookup_first_entry:
  assumes "q_existsSync env (shadow_file env q f)"
    and "q_read_json env (shadow_file env q f) = Some data"
    and "js_get data ''history'' = JArr (pre @ e # post)"
    and "entry_matches e cid"
    and "\<forall>x \<in> set pre. \<not> entry_matches x cid"
  shows "getShadowContext env q f cid = JObj
     [(''ai_response'',
         if truthy (js_get e ''ai_response'') then js_get e ''ai_response'' else JStr []),
      (''tool_operations'',
         if truthy (js_get e ''tool_operations'') then js_get e ''tool_operations'' else JArr []),
      (''user_prompt'',
         if truthy (js_get e ''user_prompt'') then js_get e ''user_prompt'' else JStr []),
      (''timestamp'',
         if truthy (js_get e ''timestamp'') then js_get e ''timestamp'' else JStr [])]"
  using getShadowContext_first [OF assms] by (simp add: context_of_def js_or_def)

theorem shadow_lookup_first_entry_witness:
  "getShadowContext demo_env demo_query ''src/auth.js'' (JStr ''C1'') = JObj
     [(''ai_response'', JStr ''Added JWT auth''),
      (''tool_operations'', JArr [JObj [(''op'', JStr ''write'')]]),
      (''user_prompt'', JStr []), (''timestamp'', JStr [])]"
  using shadow_lookup_first_entry [of demo_env demo_query "''src/auth.js''" demo_shadow
      "[JObj [(''conversation_id'', JStr ''C0''), (''ai_response'', JStr ''other'')]]"
      "JObj [(''conversation_id'', JStr ''C1''), (''ai_response'', JStr ''Added JWT auth''),
            (''tool_operations'', JArr [JObj [(''op'', JStr ''write'')]])]"
      "[JObj [(''conversation_id'', JStr ''C1''), (''ai_response'', JStr ''Second pass'')],
        JObj [(''conversation_id'', JStr ''C2''), (''ai_response'', JStr []),
              (''user_prompt'', JStr ''tidy'')]]"
      "JStr ''C1''"]
  by (simp add: demo_defs shadow_file_def entry_matches_def)


subsection \<open>The composed record\<close>

lemma scan_history_truthy: "scan_history hist cid = Some ctx \<Longrightarrow> truthy ctx"
  by (induction hist) (auto simp: context_of_def split: if_splits)

lemma getShadowContext_truthy: "truthy (getShadowContext env q f cid)"
  by (auto simp: getShadowContext_def Let_def scan_history_truthy split: option.splits)

lemma getBlameInfo_found:
  assumes "\<not> nullish (microIndex q)"
    and "find_snapshot (snapshot_entries q) h = Inr snap"
    and "truthy snap"
  shows "getBlameInfo env q h f =
     Inr (compose_blame snap (lookup_conversation q (js_get snap ''conversation_id''))
            (getShadowContext env q f (js_get snap ''conversation_id'')) h f)"
  using assms getShadowContext_truthy [of env q f "js_get snap ''conversation_id''"]
  by (simp add: getBlameInfo_def Let_def js_or_def)

lemma demo_index_not_null: "\<not> nullish (microIndex demo_query)"
  by (simp add: demo_defs)


lemma demo_scan_deadbeef02:
  "find_snapshot (snapshot_entries demo_query) ''deadbeef02''
     = Inr (JObj [(''commit'', JStr ''deadbeef02''), (''conversation_id'', JStr ''C2'')])"
  by (simp add: snapshot_entries_def demo_defs js_or_def stored_commit_def js_and_def)



lemma commit_text_stored: "(commit_text s = Some c) = (stored_commit s = JStr c)"
  by (cases "js_get s ''commit''")
     (auto simp: commit_text_def stored_commit_def js_or_def js_and_def)

lemma commit_text_is_text: "commit_text s = Some c \<Longrightarrow> commit_is_text s"
  by (simp add: commit_text_stored commit_is_text_def)

lemma commit_text_matches: "commit_text s = Some c \<Longrightarrow> commit_matches s h = prefix h c"
  by (auto simp: commit_text_stored commit_matches_def)

text \<open>
  Claim C4, as stated, at two concrete inputs. The only snapshot of the first index has
  the number 5 as its commit, which neither equals \<^verbatim>\<open>abc\<close> nor starts with it, and
  \<open>getBlameInfo\<close> throws a TypeError at \<^verbatim>\<open>stored.startsWith\<close>; the second index file
  holds \<^verbatim>\<open>null\<close>, and \<open>getBlameInfo\<close> throws at \<^verbatim>\<open>this.microIndex.snapshots\<close>.
\<close>

theorem no_snapshot_throws_counterexample:
  "snapshot_entries numeric_commit_query =
     [(''S1'', JObj [(''commit'', JNum ''5''), (''conversation_id'', JStr ''C1'')])] \<and>
   getBlameInfo demo_env numeric_commit_query ''abc'' ''auth.js'' = Inl TypeError \<and>
   getBlameInfo demo_env null_index_query ''abc'' ''auth.js'' = Inl TypeError"
  by (simp add: getBlameInfo_def snapshot_entries_def numeric_commit_query_def
      null_index_query_def demo_query_def stored_commit_def js_or_def js_and_def)

text \<open>
  Claim C4, amended. When the index is not \<^verbatim>\<open>null\<close> and every snapshot has a commit
  that is text (a string, or the empty string for a missing or falsy one), none of which
  equals the commit hash or starts with it, \<open>getBlameInfo\<close> does not throw and returns
  the record whose fields are all \<^verbatim>\<open>null\<close>, with \<open>tool_operations\<close> the empty array.
\<close>

theorem no_snapshot_gives_null_record:
  assumes "\<not> nullish (microIndex q)"
    and "\<forall>e \<in> set (snapshot_entries q). \<exists>c. commit_text (snd e) = Some c \<and> \<not> prefix h c"
  shows "getBlameInfo env q h f =
     Inr \<lparr>conversation_id = JNull, user_prompt = JNull, prompt = JNull, ai_response = JNull,
          timestamp = JNull, tool_operations = JArr [], commit_hash = None, file_path = None\<rparr>"
proof -
  have "\<forall>e \<in> set (snapshot_entries q). commit_is_text (snd e) \<and> \<not> commit_matches (snd e) h"
    using assms(2) commit_text_is_text commit_text_matches by blast
  then show ?thesis
    using assms(1) by (simp add: getBlameInfo_def find_snapshot_none not_found_def)
qed

theorem no_snapshot_gives_null_record_witness:
  "getBlameInfo demo_env demo_query ''xyz'' ''src/auth.js'' =
     Inr \<lparr>conversation_id = JNull, user_prompt = JNull, prompt = JNull, ai_response = JNull,
          timestamp = JNull, tool_operations = JArr [], commit_hash = None, file_path = None\<rparr>"
  using no_snapshot_gives_null_record [of demo_query "''xyz''" demo_env "''src/auth.js''"]
  by (simp add: demo_defs snapshot_entries_def commit_text_def js_or_def)

text \<open>
  Claim C8. When a snapshot is taken and the first history entry for its conversation
  has an \<open>ai_response\<close> that is the empty string or is absent, the \<open>ai_response\<close> of the
  record is the first element of the conversation's \<open>responses\<close> (the empty string when
  there is none): the empty response of the shadow entry counts as absent.
\<close>

theorem empty_shadow_response_falls_back:
  assumes "\<not> nullish (microIndex q)"
    and "find_snapshot (snapshot_entries q) h = Inr snap"
    and "truthy snap"
    and "q_existsSync env (shadow_file env q f)"
    and "q_read_json env (shadow_file env q f) = Some data"
    and "js_get data ''history'' = JArr (pre @ e # post)"
    and "entry_matches e (js_get snap ''conversation_id'')"
    and "\<forall>x \<in> set pre. \<not> entry_matches x (js_get snap ''conversation_id'')"
    and "js_get e ''ai_response'' = JStr [] \<or> js_get e ''ai_response'' = JUndefined"
  shows "\<exists>r. getBlameInfo env q h f = Inr r \<and>
     ai_response r =
       (case array_or_empty
               (js_get (lookup_conversation q (js_get snap ''conversation_id'')) ''responses'') of
          first # others \<Rightarrow> first
        | [] \<Rightarrow> JStr [])"
proof -
  have "getShadowContext env q f (js_get snap ''conversation_id'') = context_of e"
    using assms(4-8) by (rule getShadowContext_first)
  moreover have "js_get (context_of e) ''ai_response'' = JStr []"
    using assms(9) by (auto simp: context_of_def js_or_def)
  ultimately show ?thesis
    using getBlameInfo_found [OF assms(1-3), of env f]
    by (cases "array_or_empty
          (js_get (lookup_conversation q (js_get snap ''conversation_id'')) ''responses'')")
       (simp_all add: compose_blame_def Let_def js_or_def)
qed

theorem empty_shadow_response_falls_back_witness:
  "\<exists>r. getBlameInfo demo_env demo_query ''deadbeef02'' ''src/auth.js'' = Inr r \<and>
       ai_response r = JStr ''tidied''"
proof -
  have conv: "lookup_conversation demo_query (JStr ''C2'') =
     JObj [(''prompt'', JStr ''tidy up''), (''start_time'', JStr ''T0''),
           (''responses'', JArr [JStr ''tidied'', JStr ''again''])]"
    by (simp add: lookup_conversation_def demo_defs js_or_def)
  show ?thesis
    using empty_shadow_response_falls_back [OF demo_index_not_null demo_scan_deadbeef02,
      of demo_env "''src/auth.js''" demo_shadow
      "[JObj [(''conversation_id'', JStr ''C0''), (''ai_response'', JStr ''other'')],
        JObj [(''conversation_id'', JStr ''C1''), (''ai_response'', JStr ''Added JWT auth''),
              (''tool_operations'', JArr [JObj [(''op'', JStr ''write'')]])],
        JObj [(''conversation_id'', JStr ''C1''), (''ai_response'', JStr ''Second pass'')]]"
      "JObj [(''conversation_id'', JStr ''C2''), (''ai_response'', JStr []),
             (''user_prompt'', JStr ''tidy'')]"
      "[]"]
    by (simp add: conv) (simp add: demo_defs shadow_file_def entry_matches_def)
qed




section \<open>Properties of the sync script\<close>

lemmas demo_sync_defs = demo_node_def demo_sync_def demo_machine_def demo_world_def
  new_TigSync_def last_segment_def parent_of_def
lemmas sync_defs = Let_def validateSetup_def exists_def rel_def execGit_def js_trim_def js_space_def
  findModifiedFiles_def check_path_def syncFileToTig_def unlinkSync_def mkdirSync_def
  copyFileSync_def


subsection \<open>Change detection with an explicit list of paths\<close>

lemma check_paths_filter:
  "check_paths node t s ps (m, n, d) =
     (m @ filter (\<lambda>rp. in_project node t s rp \<and> in_mirror node t s rp \<and> \<not> bytes_equal node t s rp) ps,
      n @ filter (\<lambda>rp. in_project node t s rp \<and> \<not> in_mirror node t s rp) ps,
      d @ filter (\<lambda>rp. \<not> in_project node t s rp) ps)"
proof (induction ps arbitrary: m n d)
  case Nil
  then show ?case by simp
next
  case (Cons rp ps)
  show ?case
    by (simp add: check_path_def Let_def Cons.IH in_project_def in_mirror_def bytes_equal_def
        split: option.splits)
qed

lemma differ_not_equal: "bytes_differ node t s rp \<Longrightarrow> \<not> bytes_equal node t s rp"
  by (auto simp: bytes_differ_def bytes_equal_def split: option.splits)

text \<open>
  Claim C5, as stated, at a concrete input. \<^verbatim>\<open>same.txt\<close> is in the project and in the
  mirror with equal bytes; \<open>findModifiedFiles\<close> puts it in none of the three lists, so it
  is not classified as exactly one of modified, added and deleted.
\<close>

theorem explicit_detect_unchanged_counterexample:
  "in_project demo_node demo_sync demo_machine ''same.txt'' \<and>
   in_mirror demo_node demo_sync demo_machine ''same.txt'' \<and>
   findModifiedFiles demo_node demo_sync demo_machine [''same.txt''] = Some (Inr ([], [], []))"
  by (simp add: findModifiedFiles_def check_path_def in_project_def in_mirror_def exists_def
      demo_node_def demo_sync_def demo_machine_def new_TigSync_def)

text \<open>
  Claim C5, amended. For a path of an explicit list, \<open>findModifiedFiles\<close> returns three
  lists of which exactly one holds the path, unless the path is in the project and in the
  mirror with equal bytes, when none does: \<open>modified\<close> when the path is in the project
  and in the mirror and the bytes differ, \<open>added\<close> when it is in the project and not in
  the mirror, \<open>deleted\<close> when it is not in the project and in the mirror. The last three
  conjuncts say where every path goes: to \<open>modified\<close> when it is on both sides and the
  bytes are not read as equal, to \<open>added\<close> when it is only in the project, to \<open>deleted\<close>
  when it is not in the project.
\<close>

theorem explicit_detect_classification:
  assumes "rp \<in> set files"
  shows "\<exists>m n d. findModifiedFiles node t s files = Some (Inr (m, n, d)) \<and>
     (in_project node t s rp \<and> in_mirror node t s rp \<and> bytes_differ node t s rp \<longrightarrow>
        rp \<in> set m \<and> rp \<notin> set n \<and> rp \<notin> set d) \<and>
     (in_project node t s rp \<and> \<not> in_mirror node t s rp \<longrightarrow>
        rp \<notin> set m \<and> rp \<in> set n \<and> rp \<notin> set d) \<and>
     (\<not> in_project node t s rp \<and> in_mirror node t s rp \<longrightarrow>
        rp \<notin> set m \<and> rp \<notin> set n \<and> rp \<in> set d) \<and>
     (in_project node t s rp \<and> in_mirror node t s rp \<and> bytes_equal node t s rp \<longrightarrow>
        rp \<notin> set m \<and> rp \<notin> set n \<and> rp \<notin> set d) \<and>
     (\<not> (in_project node t s rp \<and> in_mirror node t s rp \<and> bytes_equal node t s rp) \<longrightarrow>
        (rp \<in> set m \<and> rp \<notin> set n \<and> rp \<notin> set d) \<or>
        (rp \<notin> set m \<and> rp \<in> set n \<and> rp \<notin> set d) \<or>
        (rp \<notin> set m \<and> rp \<notin> set n \<and> rp \<in> set d)) \<and>
     (rp \<in> set m \<longleftrightarrow>
        in_project node t s rp \<and> in_mirror node t s rp \<and> \<not> bytes_equal node t s rp) \<and>
     (rp \<in> set n \<longleftrightarrow> in_project node t s rp \<and> \<not> in_mirror node t s rp) \<and>
     (rp \<in> set d \<longleftrightarrow> \<not> in_project node t s rp)"
proof -
  from assms have ne: "files \<noteq> []" by auto
  have "findModifiedFiles node t s files = Some (Inr (check_paths node t s files ([], [], [])))"
    using ne by (simp add: findModifiedFiles_def)
  then show ?thesis
    using assms differ_not_equal [of node t s rp]
    by (auto simp: check_paths_filter)
qed

theorem explicit_detect_classification_witness:
  "findModifiedFiles demo_node demo_sync demo_machine
      [''same.txt'', ''edit.js'', ''fresh.ts'', ''gone.md'', ''nowhere.txt'']
     = Some (Inr ([''edit.js''], [''fresh.ts''], [''gone.md'', ''nowhere.txt'']))
   \<and> in_project demo_node demo_sync demo_machine ''edit.js''
   \<and> in_mirror demo_node demo_sync demo_machine ''edit.js''
   \<and> bytes_differ demo_node demo_sync demo_machine ''edit.js''
   \<and> \<not> bytes_equal demo_node demo_sync demo_machine ''edit.js''"
proof -
  have e: "findModifiedFiles demo_node demo_sync demo_machine
      [''same.txt'', ''edit.js'', ''fresh.ts'', ''gone.md'', ''nowhere.txt'']
     = Some (Inr ([''edit.js''], [''fresh.ts''], [''gone.md'', ''nowhere.txt'']))"
    by (simp add: findModifiedFiles_def check_path_def exists_def
      demo_node_def demo_sync_def demo_machine_def new_TigSync_def)
  have p: "in_project demo_node demo_sync demo_machine ''edit.js''
   \<and> in_mirror demo_node demo_sync demo_machine ''edit.js''
   \<and> bytes_differ demo_node demo_sync demo_machine ''edit.js''
   \<and> \<not> bytes_equal demo_node demo_sync demo_machine ''edit.js''"
    by (simp add: in_project_def in_mirror_def bytes_differ_def bytes_equal_def exists_def
      demo_node_def demo_sync_def demo_machine_def new_TigSync_def)
  show ?thesis
    using explicit_detect_classification [of "''edit.js''"
        "[''same.txt'', ''edit.js'', ''fresh.ts'', ''gone.md'', ''nowhere.txt'']"
        demo_node demo_sync demo_machine] e p
    by simp
qed

subsection \<open>The preconditions of sync\<close>

lemma validate_no_tig:
  "\<not> exists node (state w) (tigDir t) \<Longrightarrow> validateSetup node t w = (False, msg_no_tig, w)"
  by (simp add: validateSetup_def)

lemma validate_not_git:
  "exists node (state w) (tigDir t) \<Longrightarrow> \<not> exists node (state w) (n_join node (tigDir t) ''.git'') \<Longrightarrow>
   validateSetup node t w = (False, msg_not_git, w)"
  by (simp add: validateSetup_def)

lemma validate_status:
  "exists node (state w) (tigDir t) \<Longrightarrow> exists node (state w) (n_join node (tigDir t) ''.git'') \<Longrightarrow>
   n_git node (state w) (tigDir t) [''status'', ''--porcelain''] = (Some out, s') \<Longrightarrow>
   validateSetup node t w =
     (if js_trim out \<noteq> [] \<and> \<not> force t then (False, msg_uncommitted,
          \<lparr>state = s', calls = calls w @ [Git (tigDir t) [''status'', ''--porcelain'']]\<rparr>)
      else (True, [], \<lparr>state = s', calls = calls w @ [Git (tigDir t) [''status'', ''--porcelain'']]\<rparr>))"
  by (simp add: validateSetup_def execGit_def)

lemma validate_passed:
  "validateSetup node t w = (True, out, w1) \<Longrightarrow>
   calls w1 = calls w @ [Git (tigDir t) [''status'', ''--porcelain'']] \<and> out = []"
  by (auto simp: validateSetup_def execGit_def split: if_splits prod.splits option.splits)

lemma sync_invalid:
  "validateSetup node (t\<lparr>force := frc\<rparr>) w = (False, out, w') \<Longrightarrow>
   sync node t w files message frc =
     Some (Inr \<lparr>ok = False, printed = out, object = t\<lparr>force := frc\<rparr>, after = w'\<rparr>)"
  by (simp add: sync_def)

text \<open>
  Claim C6. \<open>sync\<close> returns \<^verbatim>\<open>false\<close>
  \<^item> when the mirror root does not exist, with the machine untouched;
  \<^item> when the mirror root has no \<^verbatim>\<open>.git\<close>, with the machine untouched;
  \<^item> when \<^verbatim>\<open>git status --porcelain\<close> prints something other than white space and
    the force flag is not set, the call of \<^verbatim>\<open>git status\<close> being the only call made;
  and with the force flag set the pending changes do not stop \<open>validateSetup\<close>. The
  three failures print three different reasons.
\<close>

theorem sync_validation_fails_closed:
  "(\<not> exists node (state w) (tigDir t) \<longrightarrow>
      sync node t w files message frc =
        Some (Inr \<lparr>ok = False, printed = msg_no_tig, object = t\<lparr>force := frc\<rparr>, after = w\<rparr>)) \<and>
   (exists node (state w) (tigDir t) \<and>
    \<not> exists node (state w) (n_join node (tigDir t) ''.git'') \<longrightarrow>
      sync node t w files message frc =
        Some (Inr \<lparr>ok = False, printed = msg_not_git, object = t\<lparr>force := frc\<rparr>, after = w\<rparr>)) \<and>
   (exists node (state w) (tigDir t) \<and>
    exists node (state w) (n_join node (tigDir t) ''.git'') \<and>
    n_git node (state w) (tigDir t) [''status'', ''--porcelain''] = (Some out, s') \<and>
    js_trim out \<noteq> [] \<and> \<not> frc \<longrightarrow>
      sync node t w files message frc =
        Some (Inr \<lparr>ok = False, printed = msg_uncommitted, object = t\<lparr>force := frc\<rparr>,
                   after = \<lparr>state = s',
                            calls = calls w @ [Git (tigDir t) [''status'', ''--porcelain'']]\<rparr>\<rparr>)) \<and>
   (exists node (state w) (tigDir t) \<and>
    exists node (state w) (n_join node (tigDir t) ''.git'') \<and>
    n_git node (state w) (tigDir t) [''status'', ''--porcelain''] = (Some out, s') \<and> frc \<longrightarrow>
      fst (validateSetup node (t\<lparr>force := frc\<rparr>) w)) \<and>
   distinct [msg_no_tig, msg_not_git, msg_uncommitted]"
proof -
  have d: "distinct [msg_no_tig, msg_not_git, msg_uncommitted]"
    by (simp add: msg_no_tig_def msg_not_git_def msg_uncommitted_def)
  show ?thesis
    using d validate_no_tig [of node w "t\<lparr>force := frc\<rparr>"]
      validate_not_git [of node w "t\<lparr>force := frc\<rparr>"]
      validate_status [of node w "t\<lparr>force := frc\<rparr>" out s']
    by (auto simp: sync_invalid)
qed


theorem sync_validation_fails_closed_witness:
  "sync demo_node demo_sync \<lparr>state = no_tig_machine, calls = []\<rparr> [] None False =
     Some (Inr \<lparr>ok = False, printed = msg_no_tig, object = demo_sync\<lparr>force := False\<rparr>,
                after = \<lparr>state = no_tig_machine, calls = []\<rparr>\<rparr>) \<and>
   sync demo_node demo_sync \<lparr>state = no_git_machine, calls = []\<rparr> [] None False =
     Some (Inr \<lparr>ok = False, printed = msg_not_git, object = demo_sync\<lparr>force := False\<rparr>,
                after = \<lparr>state = no_git_machine, calls = []\<rparr>\<rparr>) \<and>
   sync demo_node demo_sync \<lparr>state = dirty_machine, calls = []\<rparr> [] None False =
     Some (Inr \<lparr>ok = False, printed = msg_uncommitted, object = demo_sync\<lparr>force := False\<rparr>,
                after = \<lparr>state = dirty_machine,
                         calls = [Git ''/proj/.tig'' [''status'', ''--porcelain'']]\<rparr>\<rparr>) \<and>
   fst (validateSetup demo_node (demo_sync\<lparr>force := True\<rparr>) \<lparr>state = dirty_machine, calls = []\<rparr>)"
proof -
  have a: "\<not> exists demo_node no_tig_machine ''/proj/.tig''"
    by (simp add: exists_def demo_node_def no_tig_machine_def demo_machine_def)
  have b: "exists demo_node no_git_machine ''/proj/.tig'' \<and>
           \<not> exists demo_node no_git_machine ''/proj/.tig/.git''"
    by (simp add: exists_def demo_node_def no_git_machine_def demo_machine_def)
  have c: "exists demo_node dirty_machine ''/proj/.tig'' \<and>
           exists demo_node dirty_machine ''/proj/.tig/.git'' \<and>
           n_git demo_node dirty_machine ''/proj/.tig'' [''status'', ''--porcelain'']
              = (Some '' M edit.js'', dirty_machine) \<and>
           js_trim '' M edit.js'' \<noteq> []"
    by (simp add: exists_def demo_node_def dirty_machine_def demo_machine_def js_trim_def
        js_space_def)
  have t: "tigDir demo_sync = ''/proj/.tig''"
    by (simp add: demo_sync_def new_TigSync_def demo_node_def)
  have j: "n_join demo_node ''/proj/.tig'' ''.git'' = ''/proj/.tig/.git''"
    by (simp add: demo_node_def)
  show ?thesis
    using a b c
      sync_validation_fails_closed [of demo_node "\<lparr>state = no_tig_machine, calls = []\<rparr>" demo_sync "[]" None False]
      sync_validation_fails_closed [of demo_node "\<lparr>state = no_git_machine, calls = []\<rparr>" demo_sync "[]" None False]
      sync_validation_fails_closed [of demo_node "\<lparr>state = dirty_machine, calls = []\<rparr>" demo_sync "[]" None False
             "'' M edit.js''" dirty_machine]
      sync_validation_fails_closed [of demo_node "\<lparr>state = dirty_machine, calls = []\<rparr>" demo_sync "[]" None True
             "'' M edit.js''" dirty_machine]
    by (simp add: t j)
qed

subsection \<open>The batch of file operations and the commit step\<close>

lemma syncFileToTig_dirs:
  "projectDir t' = projectDir t \<Longrightarrow> tigDir t' = tigDir t \<Longrightarrow>
   syncFileToTig node t' w f del = syncFileToTig node t w f del"
  by (simp add: syncFileToTig_def)

lemma file_results_dirs:
  "projectDir t' = projectDir t \<Longrightarrow> tigDir t' = tigDir t \<Longrightarrow>
   file_results node t' del fs w = file_results node t del fs w"
  by (induction fs arbitrary: w) (simp_all add: syncFileToTig_dirs [of t' t])

lemma file_results_Cons:
  "file_results node t del (f # fs) w =
     (fst (syncFileToTig node t w f del) #
        fst (file_results node t del fs (snd (syncFileToTig node t w f del))),
      snd (file_results node t del fs (snd (syncFileToTig node t w f del))))"
  by (simp split: prod.splits)

lemma file_results_length: "length (fst (file_results node t del fs w)) = length fs"
  by (induction fs arbitrary: w) (simp_all add: file_results_Cons del: file_results.simps(2))

lemma syncFileToTig_git_calls:
  "filter is_git (calls (snd (syncFileToTig node t w f del))) = filter is_git (calls w)"
  by (simp add: syncFileToTig_def Let_def unlinkSync_def mkdirSync_def copyFileSync_def
      split: prod.splits bool.splits)

lemma file_results_git_calls:
  "filter is_git (calls (snd (file_results node t del fs w))) = filter is_git (calls w)"
  by (induction fs arbitrary: w)
     (simp_all add: file_results_Cons syncFileToTig_git_calls del: file_results.simps(2))

lemma sync_changed_shape:
  "\<exists>xs. sync_changed node fs (t, w, c) =
     (t\<lparr>files_synced := xs\<rparr>, snd (file_results node t False fs w),
      c + length (filter (\<lambda>r. r) (fst (file_results node t False fs w))))"
proof (induction fs arbitrary: t w c)
  case Nil
  have "sync_changed node [] (t, w, c) =
     (t\<lparr>files_synced := files_synced t\<rparr>, snd (file_results node t False [] w),
      c + length (filter (\<lambda>r. r) (fst (file_results node t False [] w))))" by simp
  then show ?case by blast
next
  case (Cons f fs)
  obtain r w' where s: "syncFileToTig node t w f False = (r, w')"
    by (cases "syncFileToTig node t w f False")
  show ?case
  proof (cases r)
    case True
    let ?t' = "t\<lparr>files_synced := files_synced t @ [f]\<rparr>"
    have fr: "file_results node ?t' False fs w' = file_results node t False fs w'"
      by (rule file_results_dirs) simp_all
    from Cons.IH [of ?t' w' "Suc c"]
    obtain xs where "sync_changed node fs (?t', w', Suc c) =
       (?t'\<lparr>files_synced := xs\<rparr>, snd (file_results node t False fs w'),
        Suc c + length (filter (\<lambda>r. r) (fst (file_results node t False fs w'))))"
      unfolding fr by blast
    with s True have "sync_changed node (f # fs) (t, w, c) =
       (t\<lparr>files_synced := xs\<rparr>, snd (file_results node t False (f # fs) w),
        c + length (filter (\<lambda>r. r) (fst (file_results node t False (f # fs) w))))"
      by (simp add: file_results_Cons del: file_results.simps(2))
    then show ?thesis by blast
  next
    case False
    from Cons.IH [of t w' c]
    obtain xs where "sync_changed node fs (t, w', c) =
       (t\<lparr>files_synced := xs\<rparr>, snd (file_results node t False fs w'),
        c + length (filter (\<lambda>r. r) (fst (file_results node t False fs w'))))"
      by blast
    with s False have "sync_changed node (f # fs) (t, w, c) =
       (t\<lparr>files_synced := xs\<rparr>, snd (file_results node t False (f # fs) w),
        c + length (filter (\<lambda>r. r) (fst (file_results node t False (f # fs) w))))"
      by (simp add: file_results_Cons del: file_results.simps(2))
    then show ?thesis by blast
  qed
qed

lemma sync_deleted_eq:
  "sync_deleted node fs (t, w, c) =
     (t, snd (file_results node t True fs w),
      c + length (filter (\<lambda>r. r) (fst (file_results node t True fs w))))"
proof (induction fs arbitrary: w c)
  case Nil
  then show ?case by simp
next
  case (Cons f fs)
  obtain r w' where s: "syncFileToTig node t w f True = (r, w')"
    by (cases "syncFileToTig node t w f True")
  show ?case using s Cons.IH [of w']
    by (cases r) (simp_all add: file_results_Cons del: file_results.simps(2))
qed

lemma no_success_iff: "length (filter (\<lambda>r. r) rs) = 0 \<longleftrightarrow> (\<forall>r \<in> set rs. \<not> r)"
  by (induction rs) auto

lemma create_commit_calls:
  "\<exists>rest. calls (snd (create_commit node t w message)) =
      calls w @ Git (tigDir t) [''add'', ''-A''] # rest \<and>
      (fst (n_git node (state w) (tigDir t) [''add'', ''-A'']) \<noteq> None \<longrightarrow>
         (\<exists>rest'. rest = Git (tigDir t) [''commit'', ''-m'', commit_message t message] # rest'))"
  by (auto simp: create_commit_def execGit_def split: prod.splits option.splits)

lemma sync_valid:
  assumes "validateSetup node (t\<lparr>force := frc\<rparr>) w = (True, out, w1)"
    and "findModifiedFiles node (t\<lparr>force := frc\<rparr>) (state w1) files = Some (Inr (m, n, d))"
    and "m \<noteq> [] \<or> n \<noteq> [] \<or> d \<noteq> []"
    and "file_results node t False (m @ n) w1 = (rs1, wa)"
    and "file_results node t True d wa = (rs2, wb)"
  shows "\<exists>t2. tigDir t2 = tigDir t \<and> files_modified t2 = m \<and> files_added t2 = n \<and>
           files_deleted t2 = d \<and>
     sync node t w files message frc =
       (if \<forall>r \<in> set (rs1 @ rs2). \<not> r
        then Some (Inr \<lparr>ok = False, printed = out, object = t2, after = wb\<rparr>)
        else Some (Inr \<lparr>ok = fst (create_commit node t2 wb message), printed = out, object = t2,
                        after = snd (create_commit node t2 wb message)\<rparr>))"
proof -
  let ?t1 = "t\<lparr>force := frc, files_modified := m, files_added := n, files_deleted := d\<rparr>"
  have fr1: "file_results node ?t1 False (m @ n) w1 = (rs1, wa)"
    using assms(4) file_results_dirs [of ?t1 t node False "m @ n" w1] by simp
  obtain xs where ch: "sync_changed node (m @ n) (?t1, w1, 0) =
      (?t1\<lparr>files_synced := xs\<rparr>, wa, length (filter (\<lambda>r. r) rs1))"
    using sync_changed_shape [of node "m @ n" ?t1 w1 0] fr1 by auto
  let ?t2 = "?t1\<lparr>files_synced := xs\<rparr>"
  have fr2: "file_results node ?t2 True d wa = (rs2, wb)"
    using assms(5) file_results_dirs [of ?t2 t node True d wa] by simp
  have del: "sync_deleted node d (?t2, wa, length (filter (\<lambda>r. r) rs1)) =
      (?t2, wb, length (filter (\<lambda>r. r) rs1) + length (filter (\<lambda>r. r) rs2))"
    using sync_deleted_eq [of node d ?t2 wa "length (filter (\<lambda>r. r) rs1)"] fr2 by simp
  have zero: "(length (filter (\<lambda>r. r) rs1) + length (filter (\<lambda>r. r) rs2) = 0) = (\<forall>r \<in> set (rs1 @ rs2). \<not> r)"
    using no_success_iff [of "rs1 @ rs2"] by simp
  have ne: "\<not> (m = [] \<and> n = [] \<and> d = [])" using assms(3) by blast
  have loops: "sync_deleted node d (sync_changed node (m @ n) (?t1, w1, 0)) =
      (?t2, wb, length (filter (\<lambda>r. r) rs1) + length (filter (\<lambda>r. r) rs2))"
    using ch del by simp
  have unfold: "sync node t w files message frc =
       (if length (filter (\<lambda>r. r) rs1) + length (filter (\<lambda>r. r) rs2) = 0
        then Some (Inr \<lparr>ok = False, printed = out, object = ?t2, after = wb\<rparr>)
        else case create_commit node ?t2 wb message of
               (res, w3) \<Rightarrow> Some (Inr \<lparr>ok = res, printed = out, object = ?t2, after = w3\<rparr>))"
    using assms(1,2) loops by (simp add: sync_def Let_def if_not_P [OF ne])
  have "sync node t w files message frc =
       (if \<forall>r \<in> set (rs1 @ rs2). \<not> r
        then Some (Inr \<lparr>ok = False, printed = out, object = ?t2, after = wb\<rparr>)
        else Some (Inr \<lparr>ok = fst (create_commit node ?t2 wb message), printed = out, object = ?t2,
                        after = snd (create_commit node ?t2 wb message)\<rparr>))"
    unfolding unfold zero by (auto simp: case_prod_beta)
  moreover have "tigDir ?t2 = tigDir t \<and> files_modified ?t2 = m \<and> files_added ?t2 = n \<and>
           files_deleted ?t2 = d" by simp
  ultimately show ?thesis by blast
qed

text \<open>
  Claim C7. Let the validation pass and the detection return at least one path. Every
  path gets its operation, whatever the results of the operations before it (there is one
  result per path). When no operation succeeds, \<open>sync\<close> returns \<^verbatim>\<open>false\<close> and calls git
  no more after the validation: nothing is staged or committed. When at least one
  succeeds, \<open>sync\<close> goes on to \<^verbatim>\<open>git add -A\<close> on the machine the batch left, and to
  \<^verbatim>\<open>git commit\<close> when the staging does not fail.
\<close>

theorem sync_no_success_no_commit:
  assumes "validateSetup node (t\<lparr>force := frc\<rparr>) w = (True, out, w1)"
    and "findModifiedFiles node (t\<lparr>force := frc\<rparr>) (state w1) files = Some (Inr (m, n, d))"
    and "m \<noteq> [] \<or> n \<noteq> [] \<or> d \<noteq> []"
    and "file_results node t False (m @ n) w1 = (rs1, wa)"
    and "file_results node t True d wa = (rs2, wb)"
  shows "length rs1 = length (m @ n) \<and> length rs2 = length d \<and>
     (\<exists>res. sync node t w files message frc = Some (Inr res) \<and>
        ((\<forall>r \<in> set (rs1 @ rs2). \<not> r) \<longrightarrow>
           \<not> ok res \<and> after res = wb \<and>
           filter is_git (calls (after res)) =
             filter is_git (calls w) @ [Git (tigDir t) [''status'', ''--porcelain'']]) \<and>
        ((\<exists>r \<in> set (rs1 @ rs2). r) \<longrightarrow>
           (\<exists>rest. calls (after res) = calls wb @ Git (tigDir t) [''add'', ''-A''] # rest \<and>
              (fst (n_git node (state wb) (tigDir t) [''add'', ''-A'']) \<noteq> None \<longrightarrow>
                 (\<exists>msg rest'. rest = Git (tigDir t) [''commit'', ''-m'', msg] # rest')))))"
proof -
  have l1: "length rs1 = length (m @ n)"
    using file_results_length [of node t False "m @ n" w1] assms(4) by simp
  have l2: "length rs2 = length d"
    using file_results_length [of node t True d wa] assms(5) by simp
  have "calls w1 = calls w @ [Git (tigDir t) [''status'', ''--porcelain'']]"
    using validate_passed [OF assms(1)] by simp
  then have g: "filter is_git (calls wb) =
      filter is_git (calls w) @ [Git (tigDir t) [''status'', ''--porcelain'']]"
    using file_results_git_calls [of node t False "m @ n" w1]
      file_results_git_calls [of node t True d wa] assms(4,5) by simp
  from sync_valid [OF assms, of message] obtain t2 where
    t2: "tigDir t2 = tigDir t"
    and s: "sync node t w files message frc =
       (if \<forall>r \<in> set (rs1 @ rs2). \<not> r
        then Some (Inr \<lparr>ok = False, printed = out, object = t2, after = wb\<rparr>)
        else Some (Inr \<lparr>ok = fst (create_commit node t2 wb message), printed = out, object = t2,
                        after = snd (create_commit node t2 wb message)\<rparr>))"
    by blast
  show ?thesis
  proof (cases "\<forall>r \<in> set (rs1 @ rs2). \<not> r")
    case True
    with s g l1 l2 show ?thesis by auto
  next
    case False
    from create_commit_calls [of node t2 wb message] t2 obtain rest where
      "calls (snd (create_commit node t2 wb message)) =
         calls wb @ Git (tigDir t) [''add'', ''-A''] # rest"
      "fst (n_git node (state wb) (tigDir t) [''add'', ''-A'']) \<noteq> None \<longrightarrow>
         (\<exists>msg rest'. rest = Git (tigDir t) [''commit'', ''-m'', msg] # rest')"
      by auto
    with False s l1 l2 show ?thesis by auto
  qed
qed

lemma demo_validate:
  "validateSetup demo_node (demo_sync\<lparr>force := False\<rparr>) demo_world =
     (True, [], \<lparr>state = demo_machine, calls = [Git ''/proj/.tig'' [''status'', ''--porcelain'']]\<rparr>)"
  by (simp add: sync_defs demo_sync_defs)

theorem sync_no_success_no_commit_witness:
  "(\<exists>res. sync demo_node demo_sync demo_world [''lib''] None False = Some (Inr res) \<and>
      \<not> ok res \<and>
      filter is_git (calls (after res)) = [Git ''/proj/.tig'' [''status'', ''--porcelain'']]) \<and>
   (\<exists>res rest. sync demo_node demo_sync demo_world [''lib'', ''edit.js''] None False = Some (Inr res) \<and>
      filter is_git (calls (after res)) =
        [Git ''/proj/.tig'' [''status'', ''--porcelain''], Git ''/proj/.tig'' [''add'', ''-A'']]
        @ rest)"
proof -
  let ?w1 = "\<lparr>state = demo_machine, calls = [Git ''/proj/.tig'' [''status'', ''--porcelain'']]\<rparr>"
  let ?wa = "\<lparr>state = demo_machine,
               calls = [Git ''/proj/.tig'' [''status'', ''--porcelain''], Mkdir ''/proj/.tig'',
                        CopyFile ''/proj/lib'' ''/proj/.tig/lib'']\<rparr>"
  let ?m2 = "demo_machine\<lparr>m_files := (''/proj/.tig/edit.js'', [4, 5]) #
               filter (\<lambda>e. fst e \<noteq> ''/proj/.tig/edit.js'') (m_files demo_machine)\<rparr>"
  let ?wb = "\<lparr>state = ?m2,
               calls = [Git ''/proj/.tig'' [''status'', ''--porcelain''],
                        Mkdir ''/proj/.tig'', CopyFile ''/proj/edit.js'' ''/proj/.tig/edit.js'',
                        Mkdir ''/proj/.tig'', CopyFile ''/proj/lib'' ''/proj/.tig/lib'']\<rparr>"
  have f1: "findModifiedFiles demo_node (demo_sync\<lparr>force := False\<rparr>) (state ?w1) [''lib'']
      = Some (Inr ([], [''lib''], []))"
    by (simp add: sync_defs demo_sync_defs)
  have r1: "file_results demo_node demo_sync False ([] @ [''lib'']) ?w1 = ([False], ?wa)"
    by (simp add: sync_defs demo_sync_defs)
  have r1d: "file_results demo_node demo_sync True [] ?wa = ([], ?wa)" by simp
  have f2: "findModifiedFiles demo_node (demo_sync\<lparr>force := False\<rparr>) (state ?w1)
      [''lib'', ''edit.js''] = Some (Inr ([''edit.js''], [''lib''], []))"
    by (simp add: sync_defs demo_sync_defs)
  have r2: "file_results demo_node demo_sync False ([''edit.js''] @ [''lib'']) ?w1
      = ([True, False], ?wb)"
    by (simp add: sync_defs demo_sync_defs)
  have r2d: "file_results demo_node demo_sync True [] ?wb = ([], ?wb)" by simp
  have t: "tigDir demo_sync = ''/proj/.tig''"
    by (simp add: demo_sync_def new_TigSync_def demo_node_def)
  from sync_no_success_no_commit [OF demo_validate f1 _ r1 r1d, of None]
  have one: "\<exists>res. sync demo_node demo_sync demo_world [''lib''] None False = Some (Inr res) \<and>
      \<not> ok res \<and>
      filter is_git (calls (after res)) = [Git ''/proj/.tig'' [''status'', ''--porcelain'']]"
    by auto
  from sync_no_success_no_commit [OF demo_validate f2 _ r2 r2d, of None]
  have two: "\<exists>res rest. sync demo_node demo_sync demo_world [''lib'', ''edit.js''] None False = Some (Inr res) \<and>
      filter is_git (calls (after res)) =
        [Git ''/proj/.tig'' [''status'', ''--porcelain''], Git ''/proj/.tig'' [''add'', ''-A'']]
        @ rest"
    by (auto simp: t)
  from one two show ?thesis by blast
qed

subsection \<open>Deletion\<close>

text \<open>
  Claim C10, as stated, at a concrete input. \<^verbatim>\<open>shadow\<close> exists in the mirror as a
  directory (and not in the project, so that \<open>findModifiedFiles\<close> reports it as deleted);
  the unlink throws, \<open>syncFileToTig\<close> returns \<^verbatim>\<open>false\<close>, and two deletions of it leave
  the success count at 0.
\<close>

theorem deletion_of_directory_counterexample:
  "exists demo_node (state demo_world) (n_join demo_node (tigDir demo_sync) ''shadow'') \<and>
   syncFileToTig demo_node demo_sync demo_world ''shadow'' True =
     (False, \<lparr>state = demo_machine, calls = [Unlink ''/proj/.tig/shadow'']\<rparr>) \<and>
   sync_deleted demo_node [''shadow'', ''shadow''] (demo_sync, demo_world, 0) =
     (demo_sync, \<lparr>state = demo_machine,
                  calls = [Unlink ''/proj/.tig/shadow'', Unlink ''/proj/.tig/shadow'']\<rparr>, 0)"
  by (simp add: sync_defs demo_sync_defs)

text \<open>
  Claim C10, amended. \<open>syncFileToTig\<close> with \<open>isDeletion\<close> returns \<^verbatim>\<open>true\<close> exactly when
  the target is absent from the mirror or its unlink does not throw. The deletion of an
  absent path returns \<^verbatim>\<open>true\<close> without a call; once a deletion has left the target
  absent, the same deletion again returns \<^verbatim>\<open>true\<close> and changes nothing; the loop of
  \<open>sync\<close> over the deleted paths adds one to the success count for each deletion that
  returns \<^verbatim>\<open>true\<close>, two for a path listed twice whose first deletion succeeds and
  leaves it absent.
\<close>

theorem deletion_idempotent:
  "fst (syncFileToTig node t w rp True) =
     (\<not> exists node (state w) (n_join node (tigDir t) rp) \<or>
      fst (n_unlinkSync node (state w) (n_join node (tigDir t) rp))) \<and>
   (\<not> exists node (state w) (n_join node (tigDir t) rp) \<longrightarrow>
      syncFileToTig node t w rp True = (True, w)) \<and>
   (\<not> exists node (state (snd (syncFileToTig node t w rp True))) (n_join node (tigDir t) rp) \<longrightarrow>
      syncFileToTig node t (snd (syncFileToTig node t w rp True)) rp True =
        (True, snd (syncFileToTig node t w rp True))) \<and>
   sync_deleted node [rp] (t, w, c) =
     (t, snd (syncFileToTig node t w rp True),
      if fst (syncFileToTig node t w rp True) then c + 1 else c) \<and>
   (fst (syncFileToTig node t w rp True) \<and>
    \<not> exists node (state (snd (syncFileToTig node t w rp True))) (n_join node (tigDir t) rp) \<longrightarrow>
      sync_deleted node [rp, rp] (t, w, c) = (t, snd (syncFileToTig node t w rp True), c + 2))"
proof -
  let ?tp = "n_join node (tigDir t) rp"
  let ?r = "syncFileToTig node t w rp True"
  have absent: "syncFileToTig node t w' rp True = (True, w')"
    if "\<not> exists node (state w') ?tp" for w'
    using that by (simp add: syncFileToTig_def)
  have a: "fst ?r = (\<not> exists node (state w) ?tp \<or> fst (n_unlinkSync node (state w) ?tp))"
    by (simp add: syncFileToTig_def unlinkSync_def case_prod_beta Let_def)
  have one: "sync_deleted node [rp] (t, w, c) = (t, snd ?r, if fst ?r then c + 1 else c)"
    by (cases ?r) (auto split: bool.splits)
  have two: "sync_deleted node [rp, rp] (t, w, c) = (t, snd ?r, c + 2)"
    if "fst ?r" "\<not> exists node (state (snd ?r)) ?tp"
  proof -
    have w1: "?r = (True, snd ?r)" using that(1) by (simp add: prod_eq_iff)
    have "syncFileToTig node t (snd ?r) rp True = (True, snd ?r)"
      using that(2) by (rule absent)
    then show ?thesis by (subst sync_deleted.simps, subst w1) simp
  qed
  show ?thesis using a absent [of w] absent [of "snd ?r"] one two by blast
qed

theorem deletion_idempotent_witness:
  "syncFileToTig demo_node demo_sync demo_world ''gone.md'' True =
     (True, \<lparr>state = demo_machine\<lparr>m_files :=
                filter (\<lambda>e. fst e \<noteq> ''/proj/.tig/gone.md'') (m_files demo_machine)\<rparr>,
             calls = [Unlink ''/proj/.tig/gone.md'']\<rparr>) \<and>
   sync_deleted demo_node [''gone.md'', ''gone.md''] (demo_sync, demo_world, 0) =
     (demo_sync, \<lparr>state = demo_machine\<lparr>m_files :=
                filter (\<lambda>e. fst e \<noteq> ''/proj/.tig/gone.md'') (m_files demo_machine)\<rparr>,
             calls = [Unlink ''/proj/.tig/gone.md'']\<rparr>, 2) \<and>
   syncFileToTig demo_node demo_sync demo_world ''nowhere.txt'' True = (True, demo_world)"
proof -
  have first: "syncFileToTig demo_node demo_sync demo_world ''gone.md'' True =
     (True, \<lparr>state = demo_machine\<lparr>m_files :=
                filter (\<lambda>e. fst e \<noteq> ''/proj/.tig/gone.md'') (m_files demo_machine)\<rparr>,
             calls = [Unlink ''/proj/.tig/gone.md'']\<rparr>)"
    by (simp add: sync_defs demo_sync_defs)
  have gone: "\<not> exists demo_node
      (demo_machine\<lparr>m_files :=
          filter (\<lambda>e. fst e \<noteq> ''/proj/.tig/gone.md'') (m_files demo_machine)\<rparr>)
      (n_join demo_node (tigDir demo_sync) ''gone.md'')"
    by (simp add: sync_defs demo_sync_defs)
  have h2: "\<not> exists demo_node (state demo_world) (n_join demo_node (tigDir demo_sync) ''nowhere.txt'')"
    by (simp add: sync_defs demo_sync_defs)
  show ?thesis
    using deletion_idempotent [of demo_node demo_sync demo_world "''gone.md''" 0]
      deletion_idempotent [of demo_node demo_sync demo_world "''nowhere.txt''" 0] h2 first gone
    by simp
qed


end
